theory Spec2Isabelle
  imports Complex_Main "HOL-Library.Word"
begin

section \<open>Time range and interval computation (rangeutil)\<close>

text \<open>
  A shallow embedding of the time range utilities of the data package
  (\<^verbatim>\<open>src/unnamed/part_001\<close>): the preset tables and \<^verbatim>\<open>describeTextRange\<close>,
  \<^verbatim>\<open>isValidTimeSpan\<close>, \<^verbatim>\<open>convertRawToRange\<close>, \<^verbatim>\<open>secondsToHms\<close>,
  \<^verbatim>\<open>calculateInterval\<close>, \<^verbatim>\<open>describeInterval\<close>, \<^verbatim>\<open>intervalToSeconds\<close>,
  \<^verbatim>\<open>intervalToMs\<close>, \<^verbatim>\<open>roundInterval\<close>, \<^verbatim>\<open>timeRangeToRelative\<close> and
  \<^verbatim>\<open>relativeToTimeRange\<close>.
\<close>

subsection \<open>JavaScript numbers\<close>

text \<open>
  A JavaScript number is modelled as an exact rational, or one of the three special
  values. The rounding of IEEE doubles is not modelled: every finite value is exact,
  and the negative zero is identified with zero. The thresholds, the rungs and the
  unit factors of the module are integers that doubles hold exactly; the literal
  0.001 of the millisecond unit is the rational 1/1000 here. The model and the
  source agree wherever every value involved is an integer of at most 2^53 in
  magnitude; beyond that, and where a double would underflow or round, the source
  computes with the rounded value.
\<close>

datatype number = Num rat | PosInfinity | NegInfinity | NaN

text \<open>The relational operators: every comparison with \<open>NaN\<close> is false.\<close>

fun js_lt :: "number \<Rightarrow> number \<Rightarrow> bool" where
  "js_lt NaN _ = False"
| "js_lt _ NaN = False"
| "js_lt (Num a) (Num b) = (a < b)"
| "js_lt (Num a) PosInfinity = True"
| "js_lt (Num a) NegInfinity = False"
| "js_lt PosInfinity _ = False"
| "js_lt NegInfinity (Num b) = True"
| "js_lt NegInfinity PosInfinity = True"
| "js_lt NegInfinity NegInfinity = False"

definition js_gt :: "number \<Rightarrow> number \<Rightarrow> bool" where
  "js_gt a b = js_lt b a"

fun js_le :: "number \<Rightarrow> number \<Rightarrow> bool" where
  "js_le NaN _ = False"
| "js_le _ NaN = False"
| "js_le a b = (\<not> js_lt b a)"

text \<open>Multiplication and division, with the special values of IEEE arithmetic.\<close>

fun js_times :: "number \<Rightarrow> number \<Rightarrow> number" where
  "js_times NaN _ = NaN"
| "js_times _ NaN = NaN"
| "js_times (Num a) (Num b) = Num (a * b)"
| "js_times (Num a) PosInfinity =
     (if a = 0 then NaN else if 0 < a then PosInfinity else NegInfinity)"
| "js_times (Num a) NegInfinity =
     (if a = 0 then NaN else if 0 < a then NegInfinity else PosInfinity)"
| "js_times PosInfinity (Num b) =
     (if b = 0 then NaN else if 0 < b then PosInfinity else NegInfinity)"
| "js_times NegInfinity (Num b) =
     (if b = 0 then NaN else if 0 < b then NegInfinity else PosInfinity)"
| "js_times PosInfinity PosInfinity = PosInfinity"
| "js_times PosInfinity NegInfinity = NegInfinity"
| "js_times NegInfinity PosInfinity = NegInfinity"
| "js_times NegInfinity NegInfinity = PosInfinity"

fun js_divide :: "number \<Rightarrow> number \<Rightarrow> number" where
  "js_divide NaN _ = NaN"
| "js_divide _ NaN = NaN"
| "js_divide (Num a) (Num b) =
     (if b = 0 then (if a = 0 then NaN else if 0 < a then PosInfinity else NegInfinity)
      else Num (a / b))"
| "js_divide (Num a) PosInfinity = Num 0"
| "js_divide (Num a) NegInfinity = Num 0"
| "js_divide PosInfinity (Num b) = (if 0 \<le> b then PosInfinity else NegInfinity)"
| "js_divide NegInfinity (Num b) = (if 0 \<le> b then NegInfinity else PosInfinity)"
| "js_divide PosInfinity PosInfinity = NaN"
| "js_divide PosInfinity NegInfinity = NaN"
| "js_divide NegInfinity PosInfinity = NaN"
| "js_divide NegInfinity NegInfinity = NaN"

text \<open>Truthiness of a number: false for zero and for \<open>NaN\<close>.\<close>

fun truthy :: "number \<Rightarrow> bool" where
  "truthy (Num a) = (a \<noteq> 0)"
| "truthy NaN = False"
| "truthy PosInfinity = True"
| "truthy NegInfinity = True"

subsection \<open>roundInterval\<close>

text \<open>
  The \<^verbatim>\<open>switch (true)\<close> of the source takes the first case whose comparison holds,
  and the default when none does.
\<close>

definition roundInterval :: "number \<Rightarrow> number" where
  "roundInterval interval =
    (if js_lt interval (Num 10) then Num 1
     else if js_lt interval (Num 15) then Num 10
     else if js_lt interval (Num 35) then Num 20
     else if js_lt interval (Num 75) then Num 50
     else if js_lt interval (Num 150) then Num 100
     else if js_lt interval (Num 350) then Num 200
     else if js_lt interval (Num 750) then Num 500
     else if js_lt interval (Num 1500) then Num 1000
     else if js_lt interval (Num 3500) then Num 2000
     else if js_lt interval (Num 7500) then Num 5000
     else if js_lt interval (Num 12500) then Num 10000
     else if js_lt interval (Num 17500) then Num 15000
     else if js_lt interval (Num 25000) then Num 20000
     else if js_lt interval (Num 45000) then Num 30000
     else if js_lt interval (Num 90000) then Num 60000
     else if js_lt interval (Num 210000) then Num 120000
     else if js_lt interval (Num 450000) then Num 300000
     else if js_lt interval (Num 750000) then Num 600000
     else if js_lt interval (Num 1050000) then Num 900000
     else if js_lt interval (Num 1500000) then Num 1200000
     else if js_lt interval (Num 2700000) then Num 1800000
     else if js_lt interval (Num 5400000) then Num 3600000
     else if js_lt interval (Num 9000000) then Num 7200000
     else if js_lt interval (Num 16200000) then Num 10800000
     else if js_lt interval (Num 32400000) then Num 21600000
     else if js_lt interval (Num 86400000) then Num 43200000
     else if js_lt interval (Num 604800000) then Num 86400000
     else if js_lt interval (Num 1814400000) then Num 604800000
     else if js_lt interval (Num 3628800000) then Num 2592000000
     else Num 31536000000)"

text \<open>
  The threshold table as the comments of the source document it: each pair is the
  exclusive upper end of a bracket (the comment before the case: 0.01s, 0.015s,
  0.035s, ...) and the rung returned in it (the comment after the return: 0.001s,
  0.01s, 0.02s, ...), in milliseconds. Above the last bracket (6w) the rung is one
  year.
\<close>

definition documented_brackets :: "(rat \<times> rat) list" where
  "documented_brackets =
    [(10, 1), (15, 10), (35, 20), (75, 50), (150, 100), (350, 200), (750, 500),
     (1500, 1000), (3500, 2000), (7500, 5000), (12500, 10000), (17500, 15000),
     (25000, 20000), (45000, 30000), (90000, 60000), (210000, 120000),
     (450000, 300000), (750000, 600000), (1050000, 900000), (1500000, 1200000),
     (2700000, 1800000), (5400000, 3600000), (9000000, 7200000),
     (16200000, 10800000), (32400000, 21600000), (86400000, 43200000),
     (604800000, 86400000), (1814400000, 604800000), (3628800000, 2592000000)]"

definition one_year_ms :: rat where
  "one_year_ms = 31536000000"

fun rung_of :: "(rat \<times> rat) list \<Rightarrow> rat \<Rightarrow> rat \<Rightarrow> rat" where
  "rung_of [] dflt x = dflt"
| "rung_of ((t, r) # tbl) dflt x = (if x < t then r else rung_of tbl dflt x)"

text \<open>The quantization ladder: the rungs of the table, then one year.\<close>

definition ladder :: "rat list" where
  "ladder = map snd documented_brackets @ [one_year_ms]"

subsection \<open>JavaScript strings\<close>

text \<open>
  A string is its sequence of UTF-16 code units. \<open>str\<close> embeds an ASCII literal;
  the Cyrillic display strings of the tables are written as code units.
\<close>

type_synonym jsstring = "16 word list"

definition str :: "string \<Rightarrow> jsstring" where
  "str s = map of_char s"

text \<open>
  \<^verbatim>\<open>s.indexOf(pat)\<close>: the least position at which \<open>pat\<close> occurs in \<open>s\<close>, or -1.
\<close>

fun indexOf_from :: "jsstring \<Rightarrow> jsstring \<Rightarrow> int \<Rightarrow> int" where
  "indexOf_from [] pat i = (if pat = [] then i else - 1)"
| "indexOf_from (c # s) pat i =
     (if take (length pat) (c # s) = pat then i else indexOf_from s pat (i + 1))"

definition indexOf :: "jsstring \<Rightarrow> jsstring \<Rightarrow> int" where
  "indexOf s pat = indexOf_from s pat 0"

text \<open>
  The character classes of the two regular expressions (neither has the \<^verbatim>\<open>i\<close> or
  \<^verbatim>\<open>u\<close> flag): \<^verbatim>\<open>\d\<close> is 0-9 and \<^verbatim>\<open>\w\<close> is A-Z, a-z, 0-9 and the underscore.
\<close>

definition is_digit :: "16 word \<Rightarrow> bool" where
  "is_digit c = (0x30 \<le> c \<and> c \<le> 0x39)"

definition is_word :: "16 word \<Rightarrow> bool" where
  "is_word c = ((0x41 \<le> c \<and> c \<le> 0x5A) \<or> (0x61 \<le> c \<and> c \<le> 0x7A) \<or> is_digit c \<or> c = 0x5F)"

text \<open>
  The white space that \<^verbatim>\<open>Number\<close> and \<^verbatim>\<open>parseInt\<close> strip: the WhiteSpace and
  LineTerminator code points of the language (tab, line feed, vertical tab, form
  feed, carriage return, space, no-break space, the space separators, the line and
  paragraph separators and the byte order mark).
\<close>

definition is_white :: "16 word \<Rightarrow> bool" where
  "is_white c = ((0x09 \<le> c \<and> c \<le> 0x0D) \<or> c = 0x20 \<or> c = 0xA0 \<or> c = 0x1680
     \<or> (0x2000 \<le> c \<and> c \<le> 0x200A) \<or> c = 0x2028 \<or> c = 0x2029 \<or> c = 0x202F
     \<or> c = 0x205F \<or> c = 0x3000 \<or> c = 0xFEFF)"

definition trim :: "jsstring \<Rightarrow> jsstring" where
  "trim s = rev (dropWhile is_white (rev (dropWhile is_white s)))"

text \<open>The value of a digit, and of a run of digits in a base.\<close>

definition digit_value :: "16 word \<Rightarrow> nat" where
  "digit_value c =
     (if is_digit c then unat c - 0x30
      else if 0x61 \<le> c \<and> c \<le> 0x66 then unat c - 0x61 + 10
      else unat c - 0x41 + 10)"

definition base_value :: "nat \<Rightarrow> jsstring \<Rightarrow> nat" where
  "base_value b ds = foldl (\<lambda>acc c. b * acc + digit_value c) 0 ds"

definition is_hex :: "16 word \<Rightarrow> bool" where
  "is_hex c = (is_digit c \<or> (0x61 \<le> c \<and> c \<le> 0x66) \<or> (0x41 \<le> c \<and> c \<le> 0x46))"

definition is_octal :: "16 word \<Rightarrow> bool" where
  "is_octal c = (0x30 \<le> c \<and> c \<le> 0x37)"

definition is_binary :: "16 word \<Rightarrow> bool" where
  "is_binary c = (c = 0x30 \<or> c = 0x31)"

text \<open>
  \<^verbatim>\<open>parseInt(s, 10)\<close>: leading white space is skipped, one sign is read, and the
  longest run of decimal digits that follows is the value; with no digit there the
  result is \<open>NaN\<close>. Whatever follows the digits is ignored. With the radix given as
  10 no \<^verbatim>\<open>0x\<close> prefix is recognised. The value is the exact integer: the
  source returns the same for a magnitude of at most 2^53 and the nearest double
  for a larger one.
\<close>

definition parseInt10 :: "jsstring \<Rightarrow> number" where
  "parseInt10 s =
     (let t = dropWhile is_white s;
          neg = (case t of [] \<Rightarrow> False | c # _ \<Rightarrow> c = 0x2D);
          u = (case t of [] \<Rightarrow> [] | c # r \<Rightarrow> if c = 0x2D \<or> c = 0x2B then r else t);
          z = takeWhile is_digit u
      in if z = [] then NaN
         else Num (if neg then - of_nat (base_value 10 z) else of_nat (base_value 10 z)))"

text \<open>
  \<^verbatim>\<open>Number(s)\<close> for a string: the string is trimmed; the empty string is 0; a
  binary, octal or hexadecimal literal (unsigned) is its value; otherwise the whole
  of it must be a decimal literal, with an optional sign: \<^verbatim>\<open>Infinity\<close>, or digits
  with an optional fraction and an optional exponent, with a digit before or after
  the point. Anything else is \<open>NaN\<close>. The value is the exact rational that the
  literal denotes: the source rounds it to a double, so that a literal below the
  least positive double, such as \<^verbatim>\<open>1e-400\<close>, is zero and falsy there and is not
  here, and an integer above 2^53 is rounded there.
\<close>

definition parse_exponent :: "jsstring \<Rightarrow> int option" where
  "parse_exponent r =
     (case r of
        [] \<Rightarrow> Some 0
      | c # r1 \<Rightarrow>
          if c = 0x65 \<or> c = 0x45 then
            (let neg = (case r1 of [] \<Rightarrow> False | d # _ \<Rightarrow> d = 0x2D);
                 ds = (case r1 of [] \<Rightarrow> [] | d # r2 \<Rightarrow> if d = 0x2D \<or> d = 0x2B then r2 else r1)
             in if ds \<noteq> [] \<and> list_all is_digit ds
                then Some (if neg then - int (base_value 10 ds) else int (base_value 10 ds))
                else None)
          else None)"

definition scale10 :: "rat \<Rightarrow> int \<Rightarrow> rat" where
  "scale10 m e = (if 0 \<le> e then m * 10 ^ nat e else m / 10 ^ nat (- e))"

definition unsigned_decimal :: "jsstring \<Rightarrow> number" where
  "unsigned_decimal s =
     (if s = str ''Infinity'' then PosInfinity
      else
        (let ip = takeWhile is_digit s;
             r1 = dropWhile is_digit s;
             dot = (case r1 of [] \<Rightarrow> False | c # _ \<Rightarrow> c = 0x2E);
             fp = (if dot then takeWhile is_digit (tl r1) else []);
             r2 = (if dot then dropWhile is_digit (tl r1) else r1)
         in if ip = [] \<and> fp = [] then NaN
            else (case parse_exponent r2 of
                    None \<Rightarrow> NaN
                  | Some e \<Rightarrow> Num (scale10 (of_nat (base_value 10 (ip @ fp))) (e - int (length fp))))))"

definition non_decimal :: "jsstring \<Rightarrow> nat option" where
  "non_decimal s =
     (case s of
        z # p # ds \<Rightarrow>
          if z = 0x30 \<and> ds \<noteq> [] then
            (if (p = 0x78 \<or> p = 0x58) \<and> list_all is_hex ds then Some (base_value 16 ds)
             else if (p = 0x6F \<or> p = 0x4F) \<and> list_all is_octal ds then Some (base_value 8 ds)
             else if (p = 0x62 \<or> p = 0x42) \<and> list_all is_binary ds then Some (base_value 2 ds)
             else None)
          else None
      | _ \<Rightarrow> None)"

fun js_negate :: "number \<Rightarrow> number" where
  "js_negate (Num a) = Num (- a)"
| "js_negate PosInfinity = NegInfinity"
| "js_negate NegInfinity = PosInfinity"
| "js_negate NaN = NaN"

definition Number_of :: "jsstring \<Rightarrow> number" where
  "Number_of s =
     (let t = trim s
      in case t of
           [] \<Rightarrow> Num 0
         | c # r \<Rightarrow>
             (case non_decimal t of
                Some n \<Rightarrow> Num (of_nat n)
              | None \<Rightarrow>
                  if c = 0x2D then js_negate (unsigned_decimal r)
                  else if c = 0x2B then unsigned_decimal r
                  else unsigned_decimal t))"

text \<open>
  The conversion of a number to a string, given for the integral values and the
  special ones: the module converts only results of \<^verbatim>\<open>parseInt\<close> and
  \<^verbatim>\<open>Math.floor\<close>. The exponent notation that the language uses from 1e21 on is
  not modelled.
\<close>

fun nat_to_string :: "nat \<Rightarrow> jsstring" where
  "nat_to_string n =
     (if n < 10 then [0x30 + of_nat n]
      else nat_to_string (n div 10) @ [0x30 + of_nat (n mod 10)])"

definition int_to_string :: "int \<Rightarrow> jsstring" where
  "int_to_string i = (if i < 0 then 0x2D # nat_to_string (nat (- i)) else nat_to_string (nat i))"

fun number_to_string :: "number \<Rightarrow> jsstring" where
  "number_to_string (Num a) = int_to_string \<lfloor>a\<rfloor>"
| "number_to_string PosInfinity = str ''Infinity''"
| "number_to_string NegInfinity = str ''-Infinity''"
| "number_to_string NaN = str ''NaN''"

text \<open>\<^verbatim>\<open>Math.floor\<close> and the remainder operator, whose sign is the dividend's.\<close>

fun js_floor :: "number \<Rightarrow> number" where
  "js_floor (Num a) = Num (of_int \<lfloor>a\<rfloor>)"
| "js_floor PosInfinity = PosInfinity"
| "js_floor NegInfinity = NegInfinity"
| "js_floor NaN = NaN"

fun js_rem :: "number \<Rightarrow> number \<Rightarrow> number" where
  "js_rem (Num a) (Num b) =
     (if b = 0 then NaN
      else Num (a - b * of_int (if 0 \<le> a / b then \<lfloor>a / b\<rfloor> else \<lceil>a / b\<rceil>)))"
| "js_rem (Num a) PosInfinity = Num a"
| "js_rem (Num a) NegInfinity = Num a"
| "js_rem _ _ = NaN"

declare nat_to_string.simps [simp del]

subsection \<open>Instants and ranges\<close>

text \<open>
  Modelled from the spec: the \<^verbatim>\<open>DateTime\<close> of \<^verbatim>\<open>./moment_wrapper\<close> is not among the
  sources. An instant is its millisecond timestamp (\<^verbatim>\<open>valueOf()\<close>, the unit in which
  the interval calculator subtracts two instants); \<^verbatim>\<open>unix()\<close> is the timestamp in
  whole seconds, rounded down; \<^verbatim>\<open>subtract(n, 's')\<close> moves an instant back by \<open>n\<close>
  seconds; \<^verbatim>\<open>dateTime(d)\<close> copies an instant. Invalid dates are outside the model.
\<close>

type_synonym DateTime = int

definition valueOf :: "DateTime \<Rightarrow> int" where
  "valueOf d = d"

definition unix :: "DateTime \<Rightarrow> int" where
  "unix d = d div 1000"

definition subtract_s :: "DateTime \<Rightarrow> int \<Rightarrow> DateTime" where
  "subtract_s d n = d - n * 1000"

definition dateTime :: "DateTime \<Rightarrow> DateTime" where
  "dateTime d = d"

text \<open>
  A side of a raw range is an instant or a string. The fields \<^verbatim>\<open>from\<close> and \<^verbatim>\<open>to\<close>
  of each type of the source carry the type's name here.
\<close>

datatype RawValue = Instant DateTime | Text jsstring

record RawTimeRange =
  raw_from :: RawValue
  raw_to :: RawValue

record TimeRange =
  range_from :: DateTime
  range_to :: DateTime
  range_raw :: RawTimeRange

record RelativeTimeRange =
  rel_from :: int
  rel_to :: int

record IntervalValues =
  intervalMs :: number
  interval :: jsstring

subsection \<open>describeInterval, intervalToSeconds, intervalToMs\<close>

text \<open>
  The pattern \<^verbatim>\<open>/(-?\d+(?:\.\d+)?)(ms|[Mwdhmsy])/\<close> is not anchored: \<^verbatim>\<open>match\<close>
  returns the match at the leftmost position that has one. At one position the
  match is determined: an optional minus, the whole run of digits, a point with
  the whole run of digits after it when at least one digit follows the point, then
  the unit, \<^verbatim>\<open>ms\<close> tried before the single letters. Backtracking finds nothing
  else: a shorter run of digits is followed by a digit, and a fraction left out is
  followed by the point, and neither is a unit.
\<close>

definition unit_at :: "jsstring \<Rightarrow> jsstring option" where
  "unit_at s =
     (if take 2 s = str ''ms'' then Some (str ''ms'')
      else (case s of
              [] \<Rightarrow> None
            | c # _ \<Rightarrow> if c \<in> set (str ''Mwdhmsy'') then Some [c] else None))"

definition interval_regex_at :: "jsstring \<Rightarrow> (jsstring \<times> jsstring) option" where
  "interval_regex_at s =
     (let minus = (case s of [] \<Rightarrow> [] | c # _ \<Rightarrow> if c = 0x2D then [c] else []);
          r0 = drop (length minus) s;
          ds = takeWhile is_digit r0;
          r1 = dropWhile is_digit r0;
          frac = (case r1 of
                    [] \<Rightarrow> []
                  | c # r \<Rightarrow> if c = 0x2E \<and> takeWhile is_digit r \<noteq> []
                            then c # takeWhile is_digit r else []);
          r2 = drop (length frac) r1
      in if ds = [] then None
         else (case unit_at r2 of
                 None \<Rightarrow> None
               | Some u \<Rightarrow> Some (minus @ ds @ frac, u)))"

fun interval_regex_exec :: "jsstring \<Rightarrow> (jsstring \<times> jsstring) option" where
  "interval_regex_exec [] = None"
| "interval_regex_exec (c # s) =
     (case interval_regex_at (c # s) of
        Some m \<Rightarrow> Some m
      | None \<Rightarrow> interval_regex_exec s)"

text \<open>The table of seconds per unit, in the order of its keys.\<close>

definition intervals_in_seconds :: "(jsstring \<times> number) list" where
  "intervals_in_seconds =
     [(str ''y'', Num 31536000), (str ''M'', Num 2592000), (str ''w'', Num 604800),
      (str ''d'', Num 86400), (str ''h'', Num 3600), (str ''m'', Num 60),
      (str ''s'', Num 1), (str ''ms'', Num (1 / 1000))]"

record IntervalSpec =
  sec :: number
  type :: jsstring
  count :: number

datatype error = Error jsstring

fun join :: "jsstring \<Rightarrow> jsstring list \<Rightarrow> jsstring" where
  "join sep [] = []"
| "join sep [x] = x"
| "join sep (x # y # xs) = x @ sep @ join sep (y # xs)"

definition invalid_interval_message :: jsstring where
  "invalid_interval_message =
     str ''Invalid interval string, has to be either unit-less or end with one of the following units: ''
     @ [0x22] @ join (str '', '') (map fst intervals_in_seconds) @ [0x22]"

text \<open>
  The first branch is taken when \<^verbatim>\<open>Number(str)\<close> is truthy, that is neither
  \<open>NaN\<close> nor zero; \<^verbatim>\<open>intervals_in_seconds.s\<close> is the entry of the key \<open>s\<close>.
\<close>

definition describeInterval :: "jsstring \<Rightarrow> error + IntervalSpec" where
  "describeInterval s =
     (if truthy (Number_of s) then
        Inr \<lparr>sec = the (map_of intervals_in_seconds (str ''s'')), type = str ''s'',
             count = parseInt10 s\<rparr>
      else
        (case interval_regex_exec s of
           None \<Rightarrow> Inl (Error invalid_interval_message)
         | Some (m1, m2) \<Rightarrow>
             (case map_of intervals_in_seconds m2 of
                None \<Rightarrow> Inl (Error invalid_interval_message)
              | Some v \<Rightarrow> Inr \<lparr>sec = v, type = m2, count = parseInt10 m1\<rparr>)))"

definition intervalToSeconds :: "jsstring \<Rightarrow> error + number" where
  "intervalToSeconds s =
     (case describeInterval s of
        Inl e \<Rightarrow> Inl e
      | Inr info \<Rightarrow> Inr (js_times (sec info) (count info)))"

definition intervalToMs :: "jsstring \<Rightarrow> error + number" where
  "intervalToMs s =
     (case describeInterval s of
        Inl e \<Rightarrow> Inl e
      | Inr info \<Rightarrow> Inr (js_times (js_times (sec info) (Num 1000)) (count info)))"

subsection \<open>secondsToHms and calculateInterval\<close>

definition secondsToHms :: "number \<Rightarrow> jsstring" where
  "secondsToHms seconds =
     (let numYears = js_floor (js_divide seconds (Num 31536000)) in
      if truthy numYears then number_to_string numYears @ str ''y'' else
      let numDays = js_floor (js_divide (js_rem seconds (Num 31536000)) (Num 86400)) in
      if truthy numDays then number_to_string numDays @ str ''d'' else
      let numHours = js_floor (js_divide (js_rem (js_rem seconds (Num 31536000)) (Num 86400))
                       (Num 3600)) in
      if truthy numHours then number_to_string numHours @ str ''h'' else
      let numMinutes = js_floor (js_divide
                         (js_rem (js_rem (js_rem seconds (Num 31536000)) (Num 86400)) (Num 3600))
                         (Num 60)) in
      if truthy numMinutes then number_to_string numMinutes @ str ''m'' else
      let numSeconds = js_floor
                         (js_rem (js_rem (js_rem (js_rem seconds (Num 31536000)) (Num 86400))
                            (Num 3600)) (Num 60)) in
      if truthy numSeconds then number_to_string numSeconds @ str ''s'' else
      let numMilliseconds = js_floor (js_times seconds (Num 1000)) in
      if truthy numMilliseconds then number_to_string numMilliseconds @ str ''ms''
      else str ''less than a millisecond'')"

text \<open>
  The optional \<^verbatim>\<open>lowLimitInterval\<close> is \<open>None\<close> when it is not passed; the test
  \<^verbatim>\<open>if (lowLimitInterval)\<close> holds for a string that is passed and not empty. An
  error of \<^verbatim>\<open>intervalToMs\<close> leaves the function. The parameter \<^verbatim>\<open>range\<close> is
  \<open>timeRange\<close> here.
\<close>

definition calculateInterval ::
  "TimeRange \<Rightarrow> number \<Rightarrow> jsstring option \<Rightarrow> error + IntervalValues" where
  "calculateInterval timeRange resolution lowLimitInterval =
     (case (case lowLimitInterval of
              None \<Rightarrow> Inr (Num 1)
            | Some l \<Rightarrow> if l \<noteq> [] then intervalToMs l else Inr (Num 1)) of
        Inl e \<Rightarrow> Inl e
      | Inr lowLimitMs \<Rightarrow>
          (let rounded = roundInterval
                 (js_divide (Num (of_int (valueOf (range_to timeRange) - valueOf (range_from timeRange))))
                    resolution);
               intervalMs = (if js_gt lowLimitMs rounded then lowLimitMs else rounded)
           in Inr \<lparr>intervalMs = intervalMs,
                   interval = secondsToHms (js_divide intervalMs (Num 1000))\<rparr>))"

subsection \<open>The preset tables\<close>

text \<open>
  A described option: \<^verbatim>\<open>display\<close>, \<^verbatim>\<open>section\<close> (here \<open>opt_section\<close>) and \<^verbatim>\<open>invalid\<close> are \<open>None\<close> when the
  object has no such property or the property is undefined. The display strings of
  the tables are Bulgarian, given as their UTF-16 code units in the order of the
  source.
\<close>

record TimeOption =
  opt_from :: jsstring
  opt_to :: jsstring
  display :: "jsstring option"
  opt_section :: "number option"
  invalid :: "bool option"

record Span =
  span_display :: jsstring
  span_section :: "number option"

definition preset :: "jsstring \<Rightarrow> jsstring \<Rightarrow> jsstring \<Rightarrow> TimeOption" where
  "preset f t d = \<lparr>opt_from = f, opt_to = t, display = Some d, opt_section = None, invalid = None\<rparr>"

definition spans :: "(jsstring \<times> Span) list" where
  "spans =
    [(str ''s'', \<lparr>span_display = [0x441, 0x435, 0x43A, 0x443, 0x43D, 0x434, 0x430], span_section = None\<rparr>),
     (str ''m'', \<lparr>span_display = [0x43C, 0x438, 0x43D, 0x443, 0x442, 0x430], span_section = None\<rparr>),
     (str ''h'', \<lparr>span_display = [0x447, 0x430, 0x441], span_section = None\<rparr>),
     (str ''d'', \<lparr>span_display = [0x434, 0x435, 0x43D], span_section = None\<rparr>),
     (str ''w'', \<lparr>span_display = [0x441, 0x435, 0x434, 0x43C, 0x438, 0x446, 0x430], span_section = None\<rparr>),
     (str ''M'', \<lparr>span_display = [0x43C, 0x435, 0x441, 0x435, 0x446], span_section = None\<rparr>),
     (str ''y'', \<lparr>span_display = [0x433, 0x43E, 0x434, 0x438, 0x43D, 0x430], span_section = None\<rparr>)]"

definition rangeOptions :: "TimeOption list" where
  "rangeOptions =
    [preset (str ''now/d'') (str ''now/d'')
       [0x414, 0x43D, 0x435, 0x441],
     preset (str ''now/d'') (str ''now'')
       [0x414, 0x43E, 0x441, 0x435, 0x433, 0x430, 0x20, 0x434, 0x43D, 0x435,
        0x441],
     preset (str ''now/w'') (str ''now/w'')
       [0x422, 0x430, 0x437, 0x438, 0x20, 0x441, 0x435, 0x434, 0x43C, 0x438,
        0x446, 0x430],
     preset (str ''now/w'') (str ''now'')
       [0x414, 0x43E, 0x441, 0x435, 0x433, 0x430, 0x20, 0x442, 0x430, 0x437,
        0x438, 0x20, 0x441, 0x435, 0x434, 0x43C, 0x438, 0x446, 0x430],
     preset (str ''now/M'') (str ''now/M'')
       [0x422, 0x43E, 0x437, 0x438, 0x20, 0x43C, 0x435, 0x441, 0x435, 0x446],
     preset (str ''now/M'') (str ''now'')
       [0x414, 0x43E, 0x441, 0x435, 0x433, 0x430, 0x20, 0x442, 0x43E, 0x437,
        0x438, 0x20, 0x43C, 0x435, 0x441, 0x435, 0x446],
     preset (str ''now/y'') (str ''now/y'')
       [0x422, 0x430, 0x437, 0x438, 0x20, 0x433, 0x43E, 0x434, 0x438, 0x43D,
        0x430],
     preset (str ''now/y'') (str ''now'')
       [0x414, 0x43E, 0x441, 0x435, 0x433, 0x430, 0x20, 0x442, 0x430, 0x437,
        0x438, 0x20, 0x433, 0x43E, 0x434, 0x438, 0x43D, 0x430],
     preset (str ''now-1d/d'') (str ''now-1d/d'')
       [0x412, 0x447, 0x435, 0x440, 0x430],
     preset (str ''now-2d/d'') (str ''now-2d/d'')
       [0x41E, 0x43D, 0x437, 0x438, 0x20, 0x434, 0x435, 0x43D],
     preset (str ''now-7d/d'') (str ''now-7d/d'')
       [0x422, 0x43E, 0x437, 0x438, 0x20, 0x434, 0x435, 0x43D, 0x20, 0x43F,
        0x440, 0x435, 0x434, 0x438, 0x448, 0x43D, 0x430, 0x442, 0x430, 0x20,
        0x441, 0x435, 0x434, 0x43C, 0x438, 0x446, 0x430],
     preset (str ''now-1w/w'') (str ''now-1w/w'')
       [0x41F, 0x440, 0x435, 0x434, 0x438, 0x448, 0x43D, 0x430, 0x442, 0x430,
        0x20, 0x441, 0x435, 0x434, 0x43C, 0x438, 0x446, 0x430],
     preset (str ''now-1M/M'') (str ''now-1M/M'')
       [0x41F, 0x440, 0x435, 0x434, 0x438, 0x448, 0x43D, 0x438, 0x44F, 0x442,
        0x20, 0x43C, 0x435, 0x441, 0x435, 0x446],
     preset (str ''now-1Q/fQ'') (str ''now-1Q/fQ'')
       [0x41F, 0x440, 0x435, 0x434, 0x438, 0x448, 0x43D, 0x430, 0x442, 0x430,
        0x20, 0x444, 0x438, 0x441, 0x43A, 0x430, 0x43B, 0x43D, 0x430, 0x20,
        0x447, 0x435, 0x442, 0x432, 0x44A, 0x440, 0x442],
     preset (str ''now-1y/y'') (str ''now-1y/y'')
       [0x41F, 0x440, 0x435, 0x434, 0x438, 0x448, 0x43D, 0x430, 0x442, 0x430,
        0x20, 0x433, 0x43E, 0x434, 0x438, 0x43D, 0x430],
     preset (str ''now-1y/fy'') (str ''now-1y/fy'')
       [0x41F, 0x440, 0x435, 0x434, 0x438, 0x448, 0x43D, 0x430, 0x442, 0x430,
        0x20, 0x444, 0x438, 0x441, 0x43A, 0x430, 0x43B, 0x43D, 0x430, 0x20,
        0x433, 0x43E, 0x434, 0x438, 0x43D, 0x430],
     preset (str ''now-5m'') (str ''now'')
       [0x41F, 0x43E, 0x441, 0x43B, 0x435, 0x434, 0x43D, 0x438, 0x442, 0x435,
        0x20, 0x35, 0x20, 0x43C, 0x438, 0x43D, 0x443, 0x442, 0x438],
     preset (str ''now-15m'') (str ''now'')
       [0x41F, 0x43E, 0x441, 0x43B, 0x435, 0x434, 0x43D, 0x438, 0x442, 0x435,
        0x20, 0x31, 0x35, 0x20, 0x43C, 0x438, 0x43D, 0x443, 0x442, 0x438],
     preset (str ''now-30m'') (str ''now'')
       [0x41F, 0x43E, 0x441, 0x43B, 0x435, 0x434, 0x43D, 0x438, 0x442, 0x435,
        0x20, 0x33, 0x30, 0x20, 0x43C, 0x438, 0x43D, 0x443, 0x442, 0x438],
     preset (str ''now-1h'') (str ''now'')
       [0x41F, 0x43E, 0x441, 0x43B, 0x435, 0x434, 0x43D, 0x438, 0x44F, 0x442,
        0x20, 0x447, 0x430, 0x441],
     preset (str ''now-3h'') (str ''now'')
       [0x41F, 0x43E, 0x441, 0x43B, 0x435, 0x434, 0x43D, 0x438, 0x442, 0x435,
        0x20, 0x33, 0x20, 0x447, 0x430, 0x441, 0x430],
     preset (str ''now-6h'') (str ''now'')
       [0x41F, 0x43E, 0x441, 0x43B, 0x435, 0x434, 0x43D, 0x438, 0x442, 0x435,
        0x20, 0x36, 0x20, 0x447, 0x430, 0x441, 0x430],
     preset (str ''now-12h'') (str ''now'')
       [0x41F, 0x43E, 0x441, 0x43B, 0x435, 0x434, 0x43D, 0x438, 0x442, 0x435,
        0x20, 0x31, 0x32, 0x20, 0x447, 0x430, 0x441, 0x430],
     preset (str ''now-24h'') (str ''now'')
       [0x41F, 0x43E, 0x441, 0x43B, 0x435, 0x434, 0x43D, 0x438, 0x442, 0x435,
        0x20, 0x32, 0x34, 0x20, 0x447, 0x430, 0x441, 0x430],
     preset (str ''now-2d'') (str ''now'')
       [0x41F, 0x43E, 0x441, 0x43B, 0x435, 0x434, 0x43D, 0x438, 0x442, 0x435,
        0x20, 0x32, 0x20, 0x434, 0x43D, 0x438],
     preset (str ''now-7d'') (str ''now'')
       [0x41F, 0x43E, 0x441, 0x43B, 0x435, 0x434, 0x43D, 0x438, 0x442, 0x435,
        0x20, 0x37, 0x20, 0x434, 0x43D, 0x438],
     preset (str ''now-30d'') (str ''now'')
       [0x41F, 0x43E, 0x441, 0x43B, 0x435, 0x434, 0x43D, 0x438, 0x442, 0x435,
        0x20, 0x33, 0x30, 0x20, 0x434, 0x43D, 0x438],
     preset (str ''now-90d'') (str ''now'')
       [0x41F, 0x43E, 0x441, 0x43B, 0x435, 0x434, 0x43D, 0x438, 0x442, 0x435,
        0x20, 0x39, 0x30, 0x20, 0x434, 0x43D, 0x438],
     preset (str ''now-6M'') (str ''now'')
       [0x41F, 0x43E, 0x441, 0x43B, 0x435, 0x434, 0x43D, 0x438, 0x442, 0x435,
        0x20, 0x36, 0x20, 0x43C, 0x435, 0x441, 0x435, 0x446, 0x430],
     preset (str ''now-1y'') (str ''now'')
       [0x41F, 0x43E, 0x441, 0x43B, 0x435, 0x434, 0x43D, 0x430, 0x442, 0x430,
        0x20, 0x433, 0x43E, 0x434, 0x438, 0x43D, 0x430],
     preset (str ''now-2y'') (str ''now'')
       [0x41F, 0x43E, 0x441, 0x43B, 0x435, 0x434, 0x43D, 0x438, 0x442, 0x435,
        0x20, 0x32, 0x20, 0x433, 0x43E, 0x434, 0x438, 0x43D, 0x438],
     preset (str ''now-5y'') (str ''now'')
       [0x41F, 0x43E, 0x441, 0x43B, 0x435, 0x434, 0x43D, 0x438, 0x442, 0x435,
        0x20, 0x35, 0x20, 0x433, 0x43E, 0x434, 0x438, 0x43D, 0x438],
     preset (str ''now/fQ'') (str ''now'')
       [0x414, 0x43E, 0x441, 0x435, 0x433, 0x430, 0x20, 0x442, 0x430, 0x437,
        0x438, 0x20, 0x444, 0x438, 0x441, 0x43A, 0x430, 0x43B, 0x43D, 0x430,
        0x20, 0x447, 0x435, 0x442, 0x432, 0x44A, 0x440, 0x442],
     preset (str ''now/fQ'') (str ''now/fQ'')
       [0x422, 0x430, 0x437, 0x438, 0x20, 0x444, 0x438, 0x441, 0x43A, 0x430,
        0x43B, 0x43D, 0x430, 0x20, 0x447, 0x435, 0x442, 0x432, 0x44A, 0x440,
        0x442],
     preset (str ''now/fy'') (str ''now'')
       [0x414, 0x43E, 0x441, 0x435, 0x433, 0x430, 0x20, 0x442, 0x430, 0x437,
        0x438, 0x20, 0x444, 0x438, 0x441, 0x43A, 0x430, 0x43B, 0x43D, 0x430,
        0x20, 0x433, 0x43E, 0x434, 0x438, 0x43D, 0x430],
     preset (str ''now/fy'') (str ''now/fy'')
       [0x422, 0x430, 0x437, 0x438, 0x20, 0x444, 0x438, 0x441, 0x43A, 0x430,
        0x43B, 0x43D, 0x430, 0x20, 0x433, 0x43E, 0x434, 0x438, 0x43D, 0x430]]"

definition hiddenRangeOptions :: "TimeOption list" where
  "hiddenRangeOptions =
    [preset (str ''now'') (str ''now+1m'')
       [0x421, 0x43B, 0x435, 0x434, 0x432, 0x430, 0x449, 0x430, 0x442, 0x430,
        0x20, 0x43C, 0x438, 0x43D, 0x443, 0x442, 0x430],
     preset (str ''now'') (str ''now+5m'')
       [0x421, 0x43B, 0x435, 0x434, 0x432, 0x430, 0x449, 0x438, 0x442, 0x435,
        0x20, 0x35, 0x20, 0x43C, 0x438, 0x43D, 0x443, 0x442, 0x438],
     preset (str ''now'') (str ''now+15m'')
       [0x421, 0x43B, 0x435, 0x434, 0x432, 0x430, 0x449, 0x438, 0x442, 0x435,
        0x20, 0x31, 0x35, 0x20, 0x43C, 0x438, 0x43D, 0x443, 0x442, 0x438],
     preset (str ''now'') (str ''now+30m'')
       (str ''Next 30 minutes''),
     preset (str ''now'') (str ''now+1h'')
       [0x421, 0x43B, 0x435, 0x434, 0x432, 0x430, 0x449, 0x438, 0x44F, 0x442,
        0x20, 0x447, 0x430, 0x441],
     preset (str ''now'') (str ''now+3h'')
       [0x421, 0x43B, 0x435, 0x434, 0x432, 0x430, 0x449, 0x438, 0x442, 0x435,
        0x20, 0x33, 0x20, 0x447, 0x430, 0x441, 0x430],
     preset (str ''now'') (str ''now+6h'')
       [0x421, 0x43B, 0x435, 0x434, 0x432, 0x430, 0x449, 0x438, 0x442, 0x435,
        0x20, 0x36, 0x20, 0x447, 0x430, 0x441, 0x430],
     preset (str ''now'') (str ''now+12h'')
       [0x421, 0x43B, 0x435, 0x434, 0x432, 0x430, 0x449, 0x438, 0x442, 0x435,
        0x20, 0x31, 0x32, 0x20, 0x447, 0x430, 0x441, 0x430],
     preset (str ''now'') (str ''now+24h'')
       [0x421, 0x43B, 0x435, 0x434, 0x432, 0x430, 0x449, 0x438, 0x442, 0x435,
        0x20, 0x32, 0x34, 0x20, 0x447, 0x430, 0x441, 0x430],
     preset (str ''now'') (str ''now+2d'')
       [0x421, 0x43B, 0x435, 0x434, 0x432, 0x430, 0x449, 0x438, 0x442, 0x435,
        0x20, 0x32, 0x20, 0x434, 0x43D, 0x438],
     preset (str ''now'') (str ''now+7d'')
       [0x421, 0x43B, 0x435, 0x434, 0x432, 0x430, 0x449, 0x438, 0x442, 0x435,
        0x20, 0x37, 0x20, 0x434, 0x43D, 0x438],
     preset (str ''now'') (str ''now+30d'')
       [0x421, 0x43B, 0x435, 0x434, 0x432, 0x430, 0x449, 0x438, 0x442, 0x435,
        0x20, 0x33, 0x30, 0x20, 0x434, 0x43D, 0x438],
     preset (str ''now'') (str ''now+90d'')
       [0x421, 0x43B, 0x435, 0x434, 0x432, 0x430, 0x449, 0x438, 0x442, 0x435,
        0x20, 0x39, 0x30, 0x20, 0x434, 0x43D, 0x438],
     preset (str ''now'') (str ''now+6M'')
       [0x421, 0x43B, 0x435, 0x434, 0x432, 0x430, 0x449, 0x438, 0x442, 0x435,
        0x20, 0x36, 0x20, 0x43C, 0x435, 0x441, 0x435, 0x446, 0x430],
     preset (str ''now'') (str ''now+1y'')
       [0x421, 0x43B, 0x435, 0x434, 0x432, 0x430, 0x449, 0x430, 0x442, 0x430,
        0x20, 0x433, 0x43E, 0x434, 0x438, 0x43D, 0x430],
     preset (str ''now'') (str ''now+2y'')
       [0x421, 0x43B, 0x435, 0x434, 0x432, 0x430, 0x449, 0x438, 0x442, 0x435,
        0x20, 0x32, 0x20, 0x433, 0x43E, 0x434, 0x438, 0x43D, 0x438],
     preset (str ''now'') (str ''now+5y'')
       [0x421, 0x43B, 0x435, 0x434, 0x432, 0x430, 0x449, 0x438, 0x442, 0x435,
        0x20, 0x35, 0x20, 0x433, 0x43E, 0x434, 0x438, 0x43D, 0x438]]"

subsection \<open>rangeIndex and describeTextRange\<close>

text \<open>
  The index is filled from the visible table and then from the hidden one, each
  frame under the key \<^verbatim>\<open>frame.from + ' to ' + frame.to\<close>; a later frame replaces an
  earlier one of the same key. Every key that \<open>describeTextRange\<close> looks up ends with
  \<^verbatim>\<open>' to now'\<close>, so no inherited property of the object is ever read.
\<close>

definition frame_key :: "TimeOption \<Rightarrow> jsstring" where
  "frame_key frame = opt_from frame @ str '' to '' @ opt_to frame"

definition index_frames ::
  "TimeOption list \<Rightarrow> (jsstring \<rightharpoonup> TimeOption) \<Rightarrow> (jsstring \<rightharpoonup> TimeOption)" where
  "index_frames frames index = foldl (\<lambda>m frame. m(frame_key frame \<mapsto> frame)) index frames"

definition rangeIndex :: "jsstring \<rightharpoonup> TimeOption" where
  "rangeIndex = index_frames hiddenRangeOptions (index_frames rangeOptions Map.empty)"

text \<open>
  The pattern \<^verbatim>\<open>/^now([-+])(\d+)(\w)/\<close>, anchored at the start only. The digits
  are taken greedily; when no word character follows the whole run, the run gives
  back its last digit, which then is the word character of the third group.
\<close>

definition now_regex_exec :: "jsstring \<Rightarrow> (jsstring \<times> jsstring \<times> jsstring) option" where
  "now_regex_exec e =
     (if take 3 e = str ''now'' then
        (case drop 3 e of
           [] \<Rightarrow> None
         | sg # r \<Rightarrow>
             if sg = 0x2D \<or> sg = 0x2B then
               (let ds = takeWhile is_digit r;
                    r1 = dropWhile is_digit r;
                    shorter = (if 2 \<le> length ds then Some ([sg], butlast ds, [last ds])
                               else None)
                in if ds = [] then None
                   else (case r1 of
                           [] \<Rightarrow> shorter
                         | c # _ \<Rightarrow> if is_word c then Some ([sg], ds, [c]) else shorter))
             else None)
      else None)"

text \<open>
  The parameter \<^verbatim>\<open>expr\<close> is assigned in the source; \<open>expr0\<close> is its value on entry.
\<close>

definition describeTextRange :: "jsstring \<Rightarrow> TimeOption" where
  "describeTextRange expr0 =
     (let isLast = (indexOf expr0 (str ''+'') \<noteq> 0);
          expr = (if indexOf expr0 (str ''now'') = - 1
                  then (if isLast then str ''now-'' else str ''now'') @ expr0
                  else expr0)
      in case rangeIndex (expr @ str '' to now'') of
           Some opt \<Rightarrow> opt
         | None \<Rightarrow>
             (let opt = (if isLast
                         then \<lparr>opt_from = expr, opt_to = str ''now'', display = None,
                               opt_section = None, invalid = None\<rparr>
                         else \<lparr>opt_from = str ''now'', opt_to = expr, display = None,
                               opt_section = None, invalid = None\<rparr>)
              in case now_regex_exec expr of
                   Some (sign, digits, unit) \<Rightarrow>
                     (let amount = parseInt10 digits
                      in case map_of spans unit of
                           Some span_entry \<Rightarrow>
                             opt\<lparr>display :=
                                   Some ((if isLast then str ''Last '' else str ''Next '')
                                         @ number_to_string amount @ str '' '' @ span_display span_entry
                                         @ (if js_gt amount (Num 1) then str ''s'' else [])),
                                 opt_section := span_section span_entry\<rparr>
                         | None \<Rightarrow> opt)
                 | None \<Rightarrow>
                     opt\<lparr>display := Some (opt_from opt @ str '' to '' @ opt_to opt),
                         invalid := Some True\<rparr>))"

definition isValidTimeSpan :: "jsstring \<Rightarrow> bool" where
  "isValidTimeSpan v =
     (if indexOf v (str ''$'') = 0 \<or> indexOf v (str ''+$'') = 0 then True
      else invalid (describeTextRange v) \<noteq> Some True)"

text \<open>
  The normalized token of an expression: the value of \<^verbatim>\<open>expr\<close> after the first
  statement of \<open>describeTextRange\<close>.
\<close>

definition normalized :: "jsstring \<Rightarrow> jsstring" where
  "normalized expr0 =
     (if indexOf expr0 (str ''now'') = - 1
      then (if indexOf expr0 (str ''+'') \<noteq> 0 then str ''now-'' else str ''now'') @ expr0
      else expr0)"

subsection \<open>convertRawToRange\<close>

text \<open>
  \<^verbatim>\<open>dateTimeParse\<close> of \<^verbatim>\<open>./parser\<close> and \<^verbatim>\<open>isMathString\<close> of \<^verbatim>\<open>./datemath\<close> are not
  among the sources; they are parameters of the model. The options that
  \<open>convertRawToRange\<close> passes to the parser are a record.
\<close>

record DateTimeOptionsWhenParsing =
  roundUp :: bool
  timeZone :: "jsstring option"
  fiscalYearStartMonth :: "number option"

definition convertRawToRange ::
  "(RawValue \<Rightarrow> DateTimeOptionsWhenParsing \<Rightarrow> DateTime) \<Rightarrow> (RawValue \<Rightarrow> bool)
   \<Rightarrow> RawTimeRange \<Rightarrow> jsstring option \<Rightarrow> number option \<Rightarrow> TimeRange" where
  "convertRawToRange dateTimeParse isMathString raw tz fy =
     (let from = dateTimeParse (raw_from raw)
                   \<lparr>roundUp = False, timeZone = tz, fiscalYearStartMonth = fy\<rparr>;
          to = dateTimeParse (raw_to raw)
                 \<lparr>roundUp = True, timeZone = tz, fiscalYearStartMonth = fy\<rparr>
      in if isMathString (raw_from raw) \<or> isMathString (raw_to raw)
         then \<lparr>range_from = from, range_to = to, range_raw = raw\<rparr>
         else \<lparr>range_from = from, range_to = to,
               range_raw = \<lparr>raw_from = Instant from, raw_to = Instant to\<rparr>\<rparr>)"

subsection \<open>timeRangeToRelative and relativeToTimeRange\<close>

text \<open>
  The reference instant \<open>now\<close> is passed by the caller. The offsets of a relative
  range are whole seconds.
\<close>

definition timeRangeToRelative :: "TimeRange \<Rightarrow> DateTime \<Rightarrow> RelativeTimeRange" where
  "timeRangeToRelative timeRange now =
     (let from = unix now - unix (range_from timeRange);
          to = unix now - unix (range_to timeRange)
      in \<lparr>rel_from = from, rel_to = to\<rparr>)"

definition relativeToTimeRange :: "RelativeTimeRange \<Rightarrow> DateTime \<Rightarrow> TimeRange" where
  "relativeToTimeRange relativeTimeRange now =
     (let from = subtract_s (dateTime now) (rel_from relativeTimeRange);
          to = (if rel_to relativeTimeRange = 0 then dateTime now
                else subtract_s (dateTime now) (rel_to relativeTimeRange))
      in \<lparr>range_from = from, range_to = to,
          range_raw = \<lparr>raw_from = Instant from, raw_to = Instant to\<rparr>\<rparr>)"

lemma rung_of_mem: "rung_of tbl dflt x \<in> set (map snd tbl @ [dflt])"
  by (induction tbl dflt x rule: rung_of.induct) (auto simp: image_iff)

lemma rung_of_mono:
  "sorted (map snd tbl @ [dflt]) \<Longrightarrow> x \<le> y \<Longrightarrow> rung_of tbl dflt x \<le> rung_of tbl dflt y"
proof (induction tbl)
  case Nil
  then show ?case by simp
next
  case (Cons p tbl)
  obtain t r where p: "p = (t, r)" by (cases p)
  from Cons.prems(1) have above: "\<forall>v \<in> set (map snd tbl @ [dflt]). r \<le> v"
    and rest: "sorted (map snd tbl @ [dflt])"
    by (simp_all add: p)
  have "r \<le> rung_of tbl dflt y"
    using above rung_of_mem [of tbl dflt y] by blast
  moreover have "rung_of tbl dflt x \<le> rung_of tbl dflt y"
    using Cons.IH [OF rest Cons.prems(2)] .
  ultimately show ?case
    using Cons.prems(2) by (simp add: p)
qed

lemma roundInterval_Num: "roundInterval (Num x) = Num (rung_of documented_brackets one_year_ms x)"
  by (simp add: roundInterval_def documented_brackets_def one_year_ms_def)

lemma roundInterval_special:
  "roundInterval NaN = Num one_year_ms"
  "roundInterval PosInfinity = Num one_year_ms"
  "roundInterval NegInfinity = Num 1"
  by (simp_all add: roundInterval_def one_year_ms_def)

lemma sorted_ladder: "sorted ladder"
  by (simp add: ladder_def documented_brackets_def one_year_ms_def)

lemma roundInterval_in_ladder: "roundInterval a \<in> Num ` set ladder"
proof (cases a)
  case (Num x)
  have "rung_of documented_brackets one_year_ms x \<in> set ladder"
    unfolding ladder_def by (rule rung_of_mem)
  then show ?thesis by (simp add: Num roundInterval_Num)
qed (simp_all add: roundInterval_special ladder_def documented_brackets_def)

lemma ladder_bounds: "\<forall>v \<in> set ladder. 1 \<le> v \<and> v \<le> one_year_ms"
  by (simp add: ladder_def documented_brackets_def one_year_ms_def)

lemma ladder_fixed: "\<forall>v \<in> set ladder. roundInterval (Num v) = Num v"
  by (simp add: ladder_def documented_brackets_def one_year_ms_def roundInterval_def)

lemma length_ladder: "length ladder = 30"
  by (simp add: ladder_def documented_brackets_def)

lemma distinct_ladder: "distinct ladder"
  by (simp add: ladder_def documented_brackets_def one_year_ms_def)

lemma range_roundInterval: "range roundInterval = Num ` set ladder"
proof
  show "range roundInterval \<subseteq> Num ` set ladder"
    using roundInterval_in_ladder by blast
  show "Num ` set ladder \<subseteq> range roundInterval"
  proof
    fix n assume "n \<in> Num ` set ladder"
    then obtain v where v: "v \<in> set ladder" and n: "n = Num v" by blast
    from v have "roundInterval (Num v) = Num v" using ladder_fixed by blast
    then show "n \<in> range roundInterval" unfolding n by (metis rangeI)
  qed
qed

lemma roundInterval_mono: "js_le a b \<Longrightarrow> js_le (roundInterval a) (roundInterval b)"
proof -
  assume le: "js_le a b"
  obtain u where u: "roundInterval a = Num u" "u \<in> set ladder"
    using roundInterval_in_ladder [of a] by blast
  obtain v where v: "roundInterval b = Num v" "v \<in> set ladder"
    using roundInterval_in_ladder [of b] by blast
  have "u \<le> v"
  proof (cases a)
    case (Num x)
    note a = this
    show ?thesis
    proof (cases b)
      case (Num y)
      from le have "x \<le> y" by (simp add: a Num)
      then have "rung_of documented_brackets one_year_ms x \<le> rung_of documented_brackets one_year_ms y"
        using rung_of_mono sorted_ladder unfolding ladder_def by blast
      then show ?thesis using u(1) v(1) by (simp add: a Num roundInterval_Num)
    next
      case PosInfinity
      then have "v = one_year_ms" using v(1) by (simp add: roundInterval_special)
      then show ?thesis using u(2) ladder_bounds by blast
    next
      case NegInfinity
      then show ?thesis using le by (simp add: a)
    next
      case NaN
      then show ?thesis using le by (simp add: a)
    qed
  next
    case PosInfinity
    then have "b = PosInfinity" using le by (cases b) simp_all
    then show ?thesis using u(1) v(1) by (simp add: PosInfinity)
  next
    case NegInfinity
    then have "u = 1" using u(1) by (simp add: roundInterval_special)
    then show ?thesis using v(2) ladder_bounds by blast
  next
    case NaN
    then show ?thesis using le by simp
  qed
  then show ?thesis by (simp add: u(1) v(1))
qed

text \<open>
  C1 (amended). \<open>roundInterval\<close> maps every millisecond input, and so every
  non-negative one, to the rung of its bracket in the threshold table documented in
  the source. At the boundaries: 9 gives 1, 10 gives 10, 12499 gives 10000, and both
  14999 and 15000 give 15000, since the bracket of the 10000 rung ends at 12500 and
  the bracket from 12500 up to 17500 has the rung 15000. Above the last threshold,
  and at infinity, the rung is one year.
\<close>

theorem roundInterval_bracket:
  "roundInterval (Num x) = Num (rung_of documented_brackets one_year_ms x)
   \<and> roundInterval (Num 9) = Num 1
   \<and> roundInterval (Num 10) = Num 10
   \<and> roundInterval (Num 12499) = Num 10000
   \<and> roundInterval (Num 14999) = Num 15000
   \<and> roundInterval (Num 15000) = Num 15000
   \<and> roundInterval PosInfinity = Num 31536000000"
proof -
  have "roundInterval (Num x) = Num (rung_of documented_brackets one_year_ms x)"
    by (rule roundInterval_Num)
  moreover have "roundInterval (Num 9) = Num 1" "roundInterval (Num 10) = Num 10"
    "roundInterval (Num 12499) = Num 10000" "roundInterval (Num 14999) = Num 15000"
    "roundInterval (Num 15000) = Num 15000" "roundInterval PosInfinity = Num 31536000000"
    by (simp_all add: roundInterval_def)
  ultimately show ?thesis by blast
qed

text \<open>
  C1 as stated fails: the source returns 15000 at 14999, not 10000.
\<close>

theorem roundInterval_14999_counterexample:
  "roundInterval (Num 14999) \<noteq> Num 10000"
  by (simp add: roundInterval_def)

text \<open>
  C9 (amended). \<open>roundInterval\<close> is monotone non-decreasing, and its output is
  always one of the 30 fixed ladder values from 1 ms up to 31536000000 ms (one
  year), for every input; a negative input falls into the first bracket and gives 1.
  Each of the 30 values is returned for some input.
\<close>

theorem roundInterval_monotone_ladder:
  "(js_le a b \<longrightarrow> js_le (roundInterval a) (roundInterval b))
   \<and> roundInterval a \<in> Num ` set ladder
   \<and> (js_lt a (Num 0) \<longrightarrow> roundInterval a = Num 1)
   \<and> length ladder = 30 \<and> distinct ladder
   \<and> hd ladder = 1 \<and> last ladder = 31536000000
   \<and> range roundInterval = Num ` set ladder"
proof -
  have "js_lt a (Num 0) \<longrightarrow> roundInterval a = Num 1"
    by (cases a) (simp_all add: roundInterval_def)
  moreover have "hd ladder = 1" "last ladder = 31536000000"
    by (simp_all add: ladder_def documented_brackets_def one_year_ms_def)
  ultimately show ?thesis
    using roundInterval_mono [of a b] roundInterval_in_ladder [of a]
      length_ladder distinct_ladder range_roundInterval
    by blast
qed

theorem roundInterval_monotone_ladder_witness:
  "js_le (Num (-5)) (Num 12) \<and> js_lt (Num (-5)) (Num 0)
   \<and> js_le (roundInterval (Num (-5))) (roundInterval (Num 12))
   \<and> roundInterval (Num (-5)) = Num 1 \<and> roundInterval (Num 12) = Num 10"
  using roundInterval_monotone_ladder [of "Num (-5)" "Num 12"]
  by (simp add: roundInterval_def)

text \<open>
  C9 as stated fails: no set of 29 values holds every output, since the 30 ladder
  values are distinct and each is returned.
\<close>

theorem roundInterval_29_counterexample:
  "\<not> (\<exists>L. card L = 29 \<and> range roundInterval \<subseteq> L)"
proof
  assume "\<exists>L. card L = 29 \<and> range roundInterval \<subseteq> L"
  then obtain L where L: "card L = 29" "range roundInterval \<subseteq> L" by blast
  from L(1) have fin: "finite L" by (metis card.infinite zero_neq_numeral)
  have "card (Num ` set ladder) = 30"
    using distinct_ladder length_ladder
    by (simp add: card_image inj_on_def distinct_card)
  then have "30 \<le> card L"
    using card_mono [OF fin L(2)] by (simp add: range_roundInterval)
  with L(1) show False by simp
qed

subsection \<open>Properties of the interval parser\<close>















lemma unit_at_known:
  "unit_at s = Some u \<Longrightarrow> map_of intervals_in_seconds u \<noteq> None"
  by (auto simp: unit_at_def intervals_in_seconds_def str_def split: if_splits list.splits)

lemma interval_regex_at_unit:
  "interval_regex_at s = Some (m1, m2) \<Longrightarrow> map_of intervals_in_seconds m2 \<noteq> None"
  unfolding interval_regex_at_def Let_def
  using unit_at_known by (auto split: if_splits option.splits)

lemma interval_regex_exec_unit:
  "interval_regex_exec s = Some (m1, m2) \<Longrightarrow> map_of intervals_in_seconds m2 \<noteq> None"
proof (induction s)
  case Nil
  then show ?case by simp
next
  case (Cons c s)
  show ?case
  proof (cases "interval_regex_at (c # s)")
    case None
    then show ?thesis using Cons by simp
  next
    case (Some m)
    then have "interval_regex_at (c # s) = Some (m1, m2)" using Cons.prems by simp
    then show ?thesis by (rule interval_regex_at_unit)
  qed
qed

lemma describeInterval_raises_iff:
  "(\<exists>e. describeInterval s = Inl e) = (\<not> truthy (Number_of s) \<and> interval_regex_exec s = None)"
proof (cases "interval_regex_exec s")
  case None
  then show ?thesis by (simp add: describeInterval_def)
next
  case (Some m)
  obtain m1 m2 where m: "m = (m1, m2)" by (cases m)
  from interval_regex_exec_unit [of s m1 m2] Some m
  obtain v where "map_of intervals_in_seconds m2 = Some v" by auto
  then show ?thesis using Some m by (simp add: describeInterval_def)
qed

lemmas interval_eval =
  describeInterval_def intervalToMs_def intervalToSeconds_def Number_of_def str_def trim_def
  is_white_def non_decimal_def unsigned_decimal_def parse_exponent_def scale10_def is_digit_def
  is_hex_def is_octal_def is_binary_def interval_regex_at_def unit_at_def
  intervals_in_seconds_def parseInt10_def base_value_def digit_value_def





text \<open>
  C7 (the code at the failing input). The string \<open>"0"\<close> is a pure number, of value
  zero, yet \<open>describeInterval\<close>, \<open>intervalToSeconds\<close> and \<open>intervalToMs\<close> raise the
  error of a malformed interval on it, whose message asks for a unit-less string or
  one of the units y, M, w, d, h, m, s, ms.
\<close>

theorem describeInterval_zero_raises:
  "Number_of (str ''0'') = Num 0
   \<and> describeInterval (str ''0'') = Inl (Error invalid_interval_message)
   \<and> intervalToSeconds (str ''0'') = Inl (Error invalid_interval_message)
   \<and> intervalToMs (str ''0'') = Inl (Error invalid_interval_message)
   \<and> invalid_interval_message =
       str ''Invalid interval string, has to be either unit-less or end with one of the following units: ''
       @ [0x22] @ str ''y, M, w, d, h, m, s, ms'' @ [0x22]"
  by (simp add: interval_eval invalid_interval_message_def)

text \<open>
  C10. The pattern of \<open>describeInterval\<close> is not anchored and its magnitude may be
  signed or fractional: a string with a prefix before the number and unit, and
  magnitudes such as \<open>-5\<close> and \<open>-1.5\<close>, are accepted instead of raising the error of a
  malformed interval; \<open>"-5m"\<close> gives the count -5.
\<close>

theorem describeInterval_unanchored_signed:
  "describeInterval (str ''abc5m'') = Inr \<lparr>sec = Num 60, type = str ''m'', count = Num 5\<rparr>
   \<and> describeInterval (str ''every 5m or so'') = Inr \<lparr>sec = Num 60, type = str ''m'', count = Num 5\<rparr>
   \<and> describeInterval (str ''-5m'') = Inr \<lparr>sec = Num 60, type = str ''m'', count = Num (- 5)\<rparr>
   \<and> describeInterval (str ''-1.5h'') = Inr \<lparr>sec = Num 3600, type = str ''h'', count = Num (- 1)\<rparr>
   \<and> intervalToMs (str ''-5m'') = Inr (Num (- 300000))"
  by (simp add: interval_eval)

subsection \<open>Properties of calculateInterval\<close>

lemma js_le_one_ladder: "r \<in> Num ` set ladder \<Longrightarrow> js_le (Num 1) r \<and> \<not> js_gt (Num 1) r"
  using ladder_bounds by (auto simp: js_gt_def)

text \<open>
  C6 (amended). For every range and resolution, and for every \<open>lowLimitInterval\<close>
  that is absent or empty or that \<open>intervalToMs\<close> parses, \<open>calculateInterval\<close> returns
  the larger of \<open>roundInterval((to - from) / resolution)\<close> and the lower bound, which
  is 1 ms by default: without a bound \<open>intervalMs\<close> is the rung, a member of the
  ladder; with a bound it is the bound when the bound is above the rung and the rung
  otherwise, so it is a ladder member or the bound and is never below either. When
  \<open>intervalToMs\<close> raises on the bound, \<open>calculateInterval\<close> raises the same error.
\<close>

theorem calculateInterval_intervalMs:
  "(let rounded = roundInterval
          (js_divide (Num (of_int (valueOf (range_to timeRange) - valueOf (range_from timeRange))))
             resolution)
    in rounded \<in> Num ` set ladder \<and> js_le (Num 1) rounded
       \<and> (low = None \<or> low = Some [] \<longrightarrow>
            map_sum id intervalMs (calculateInterval timeRange resolution low) = Inr rounded)
       \<and> (low = Some l \<and> l \<noteq> [] \<and> intervalToMs l = Inr bound \<longrightarrow>
            map_sum id intervalMs (calculateInterval timeRange resolution low)
              = Inr (if js_lt rounded bound then bound else rounded)
            \<and> \<not> js_lt (if js_lt rounded bound then bound else rounded) bound
            \<and> \<not> js_lt (if js_lt rounded bound then bound else rounded) rounded
            \<and> (\<forall>a b. rounded = Num a \<and> bound = Num b \<longrightarrow>
                  (if js_lt rounded bound then bound else rounded) = Num (max a b)))
       \<and> (low = Some l \<and> l \<noteq> [] \<and> intervalToMs l = Inl e \<longrightarrow>
            calculateInterval timeRange resolution low = Inl e))"
proof -
  define rounded where "rounded = roundInterval
          (js_divide (Num (of_int (valueOf (range_to timeRange) - valueOf (range_from timeRange))))
             resolution)"
  have mem: "rounded \<in> Num ` set ladder"
    unfolding rounded_def by (rule roundInterval_in_ladder)
  note one = js_le_one_ladder [OF mem]
  have a: "map_sum id intervalMs (calculateInterval timeRange resolution low) = Inr rounded"
    if "low = None \<or> low = Some []"
    using that one unfolding rounded_def by (auto simp: calculateInterval_def Let_def)
  have b1: "map_sum id intervalMs (calculateInterval timeRange resolution low)
              = Inr (if js_lt rounded bound then bound else rounded)"
    if "low = Some l" "l \<noteq> []" "intervalToMs l = Inr bound"
    using that unfolding rounded_def by (simp add: calculateInterval_def Let_def js_gt_def)
  have b2: "\<not> js_lt (if js_lt rounded bound then bound else rounded) bound"
    by (cases rounded; cases bound) simp_all
  have b3: "\<not> js_lt (if js_lt rounded bound then bound else rounded) rounded"
    by (cases rounded; cases bound) simp_all
  have b4: "\<forall>a b. rounded = Num a \<and> bound = Num b \<longrightarrow>
                  (if js_lt rounded bound then bound else rounded) = Num (max a b)"
    by auto
  have c: "calculateInterval timeRange resolution low = Inl e"
    if "low = Some l" "l \<noteq> []" "intervalToMs l = Inl e"
    using that by (simp add: calculateInterval_def)
  show ?thesis
    unfolding Let_def rounded_def [symmetric]
    using mem one a b1 b2 b3 b4 c by blast
qed

theorem calculateInterval_intervalMs_witness:
  "intervalToMs (str ''5m'') = Inr (Num 300000)
   \<and> map_sum id intervalMs
        (calculateInterval
           \<lparr>range_from = 0, range_to = 3600000,
            range_raw = \<lparr>raw_from = Instant 0, raw_to = Instant 3600000\<rparr>\<rparr>
           (Num 100) (Some (str ''5m''))) = Inr (Num 300000)
   \<and> roundInterval (Num 36000) = Num 30000"
proof -
  have h: "intervalToMs (str ''5m'') = Inr (Num 300000)" "str ''5m'' \<noteq> []"
    by (simp_all add: interval_eval)
  show ?thesis
    using h calculateInterval_intervalMs
      [of "\<lparr>range_from = 0, range_to = 3600000,
            range_raw = \<lparr>raw_from = Instant 0, raw_to = Instant 3600000\<rparr>\<rparr>"
          "Num 100" "Some (str ''5m'')" "str ''5m''" "Num 300000"]
    by (simp add: Let_def valueOf_def roundInterval_def)
qed

text \<open>
  C6 as stated fails: with a lower bound that is malformed the function raises and
  returns no interval.
\<close>

theorem calculateInterval_malformed_counterexample:
  "calculateInterval
     \<lparr>range_from = 0, range_to = 3600000,
      range_raw = \<lparr>raw_from = Instant 0, raw_to = Instant 3600000\<rparr>\<rparr>
     (Num 100) (Some (str ''abc'')) = Inl (Error invalid_interval_message)"
  by (simp add: calculateInterval_def interval_eval)

subsection \<open>Properties of the preset index and of describeTextRange\<close>

lemma of_char_word_eq_iff: "((of_char c :: 16 word) = of_char d) = (c = d)"
proof -
  have "(of_char c :: 16 word) = of_nat (of_char c)" "(of_char d :: 16 word) = of_nat (of_char d)"
    by (simp_all add: of_nat_of_char)
  moreover have "take_bit 16 (of_char c :: nat) = of_char c" "take_bit 16 (of_char d :: nat) = of_char d"
    by (simp_all add: take_bit_nat_eq_self_iff order_less_trans [OF nat_of_char_less_256])
  ultimately have "((of_char c :: 16 word) = of_char d) = ((of_char c :: nat) = of_char d)"
    by (simp add: word_of_nat_eq_iff)
  then show ?thesis by simp
qed

lemma str_eq_iff: "(str a = str b) = (a = b)"
proof -
  have "inj (of_char :: char \<Rightarrow> 16 word)"
    by (rule injI) (simp add: of_char_word_eq_iff)
  then show ?thesis unfolding str_def by (rule inj_map_eq_map)
qed

lemma str_append: "str a @ str b = str (a @ b)"
  by (simp add: str_def)

lemma index_frames_Cons:
  "index_frames (a # frames) index = index_frames frames (index(frame_key a \<mapsto> a))"
  by (simp add: index_frames_def)

lemma index_frames_append:
  "index_frames ys (index_frames xs index) = index_frames (xs @ ys) index"
  by (simp add: index_frames_def)

lemma index_frames_other:
  "k \<notin> set (map frame_key frames) \<Longrightarrow> index_frames frames index k = index k"
  by (induction frames arbitrary: index) (simp_all add: index_frames_Cons, simp add: index_frames_def)

lemma index_frames_lookup:
  "distinct (map frame_key frames) \<Longrightarrow> f \<in> set frames \<Longrightarrow>
   index_frames frames index (frame_key f) = Some f"
proof (induction frames arbitrary: index)
  case Nil
  then show ?case by simp
next
  case (Cons a frames)
  show ?case
  proof (cases "f \<in> set frames")
    case True
    then show ?thesis using Cons by (simp add: index_frames_Cons)
  next
    case False
    then have "f = a" using Cons.prems(2) by simp
    moreover have "frame_key a \<notin> set (map frame_key frames)" using Cons.prems(1) by simp
    ultimately show ?thesis by (simp add: index_frames_Cons index_frames_other)
  qed
qed

lemma index_frames_cases:
  "index_frames frames index k = Some f \<Longrightarrow> f \<in> set frames \<or> index k = Some f"
proof (induction frames arbitrary: index)
  case Nil
  then show ?case by (simp add: index_frames_def)
next
  case (Cons a frames)
  from Cons.prems have "index_frames frames (index(frame_key a \<mapsto> a)) k = Some f"
    by (simp add: index_frames_Cons)
  from Cons.IH [OF this] show ?case by (auto split: if_splits)
qed

lemma rangeIndex_all: "rangeIndex = index_frames (rangeOptions @ hiddenRangeOptions) Map.empty"
  by (simp add: rangeIndex_def index_frames_append)

lemma frame_key_preset: "frame_key (preset (str f) (str t) d) = str (f @ '' to '' @ t)"
  by (simp add: frame_key_def preset_def str_def)

lemma distinct_frame_keys: "distinct (map frame_key (rangeOptions @ hiddenRangeOptions))"
  by (simp add: rangeOptions_def hiddenRangeOptions_def frame_key_preset str_eq_iff)


lemma length_str: "length (str s) = length s"
  by (simp add: str_def)

lemma take_str: "take n (str s) = str (take n s)"
  by (simp add: str_def take_map)

lemma preset_sel:
  "opt_from (preset f t d) = f" "opt_to (preset f t d) = t" "display (preset f t d) = Some d"
  "opt_section (preset f t d) = None" "invalid (preset f t d) = None"
  by (simp_all add: preset_def)

lemma frames_not_invalid:
  "\<forall>f \<in> set (rangeOptions @ hiddenRangeOptions). invalid f = None"
  by (simp add: rangeOptions_def hiddenRangeOptions_def preset_sel)

lemma frames_from_now:
  "\<forall>f \<in> set (rangeOptions @ hiddenRangeOptions). take 3 (opt_from f) = str ''now''"
  by (simp add: rangeOptions_def hiddenRangeOptions_def preset_sel take_str str_eq_iff)

lemma rangeIndex_frame:
  "rangeIndex k = Some f \<Longrightarrow> f \<in> set (rangeOptions @ hiddenRangeOptions)"
  using index_frames_cases [of "rangeOptions @ hiddenRangeOptions" Map.empty k f]
  by (simp add: rangeIndex_all)

lemma rangeIndex_frame_key:
  "f \<in> set (rangeOptions @ hiddenRangeOptions) \<Longrightarrow> rangeIndex (frame_key f) = Some f"
  unfolding rangeIndex_all by (rule index_frames_lookup [OF distinct_frame_keys])

lemma indexOf_from_range: "indexOf_from s pat i = - 1 \<or> i \<le> indexOf_from s pat i"
  by (induction s pat i rule: indexOf_from.induct) auto

lemma indexOf_zero_iff: "(indexOf s pat = 0) = (take (length pat) s = pat)"
proof (cases s)
  case Nil
  then show ?thesis by (auto simp: indexOf_def)
next
  case (Cons c r)
  have "indexOf_from r pat 1 \<noteq> 0" using indexOf_from_range [of r pat 1] by auto
  then show ?thesis by (simp add: indexOf_def Cons)
qed

lemma describeTextRange_frame:
  assumes f: "f \<in> set (rangeOptions @ hiddenRangeOptions)" and t: "opt_to f = str ''now''"
  shows "normalized (opt_from f) = opt_from f" "describeTextRange (opt_from f) = f"
proof -
  have "take 3 (opt_from f) = str ''now''" using frames_from_now f by blast
  moreover have "length (str ''now'') = 3" by (simp add: length_str)
  ultimately have "indexOf (opt_from f) (str ''now'') = 0"
    by (simp only: indexOf_zero_iff)
  then have i: "indexOf (opt_from f) (str ''now'') \<noteq> - 1" by simp
  then show "normalized (opt_from f) = opt_from f" by (simp add: normalized_def)
  have "opt_from f @ str '' to now'' = frame_key f"
    by (simp add: frame_key_def t str_append)
  then have "rangeIndex (opt_from f @ str '' to now'') = Some f"
    using rangeIndex_frame_key [OF f] by simp
  then show "describeTextRange (opt_from f) = f"
    using i by (simp add: describeTextRange_def Let_def)
qed

lemma describeTextRange_invalid_iff:
  "(invalid (describeTextRange v) = Some True) =
   (rangeIndex (normalized v @ str '' to now'') = None \<and> now_regex_exec (normalized v) = None)"
proof (cases "rangeIndex (normalized v @ str '' to now'')")
  case (Some f)
  then have "invalid f = None" using rangeIndex_frame frames_not_invalid by blast
  moreover have "describeTextRange v = f"
    using Some by (simp add: describeTextRange_def normalized_def Let_def)
  ultimately show ?thesis using Some by simp
next
  case None
  then show ?thesis
    by (cases "now_regex_exec (normalized v)")
       (auto simp: describeTextRange_def normalized_def Let_def split: option.splits)
qed

lemma describeTextRange_invalid_display:
  "invalid (describeTextRange v) = Some True \<Longrightarrow>
   display (describeTextRange v) =
     Some (opt_from (describeTextRange v) @ str '' to '' @ opt_to (describeTextRange v))"
proof -
  assume inv: "invalid (describeTextRange v) = Some True"
  then have n: "rangeIndex (normalized v @ str '' to now'') = None"
    "now_regex_exec (normalized v) = None"
    by (simp_all add: describeTextRange_invalid_iff)
  then show ?thesis
    by (simp add: describeTextRange_def normalized_def Let_def)
qed

lemma digit_is_word: "is_digit c \<Longrightarrow> is_word c"
  by (simp add: is_word_def)

lemma list_all_takeWhile: "list_all P (takeWhile P xs)"
  by (induction xs) simp_all

lemma now_regex_exec_shape:
  assumes "now_regex_exec e \<noteq> None"
  shows "\<exists>sg r. e = str ''now'' @ sg # r \<and> (sg = 0x2D \<or> sg = 0x2B)"
proof -
  from assms have n: "take 3 e = str ''now''"
    unfolding now_regex_exec_def by (simp split: if_splits)
  from assms obtain sg r where d: "drop 3 e = sg # r"
    unfolding now_regex_exec_def by (cases "drop 3 e") (simp_all split: if_splits)
  from assms have sg: "sg = 0x2D \<or> sg = 0x2B"
    unfolding now_regex_exec_def n d by (simp split: if_splits)
  have "e = str ''now'' @ sg # r"
    using append_take_drop_id [of 3 e] by (simp add: n d)
  then show ?thesis using sg by blast
qed

lemma now_regex_exec_core:
  assumes sg: "sg = 0x2D \<or> sg = 0x2B"
    and ds: "takeWhile is_digit r = ds" and r1: "dropWhile is_digit r = r1"
  shows "now_regex_exec (str ''now'' @ sg # r) =
    (if ds = [] then None
     else (case r1 of
             [] \<Rightarrow> if 2 \<le> length ds then Some ([sg], butlast ds, [last ds]) else None
           | c # _ \<Rightarrow> if is_word c then Some ([sg], ds, [c])
                      else if 2 \<le> length ds then Some ([sg], butlast ds, [last ds]) else None))"
proof -
  have n: "take 3 (str ''now'' @ sg # r) = str ''now''" "drop 3 (str ''now'' @ sg # r) = sg # r"
    by (simp_all add: str_def)
  show ?thesis
    unfolding now_regex_exec_def n list.case Let_def ds r1 using sg by simp
qed

lemma now_regex_exec_core_iff:
  assumes sg: "sg = 0x2D \<or> sg = 0x2B"
    and ds: "takeWhile is_digit r = ds" and r1: "dropWhile is_digit r = r1"
  shows "(now_regex_exec (str ''now'' @ sg # r) \<noteq> None) =
    (ds \<noteq> [] \<and> ((\<exists>c rest. r1 = c # rest \<and> is_word c) \<or> 2 \<le> length ds))"
  unfolding now_regex_exec_core [OF assms]
  by (cases r1) simp_all


lemma now_regex_exec_iff:
  "(now_regex_exec e = None) =
   (\<not> (\<exists>sg ds c rest. e = str ''now'' @ sg # ds @ c # rest \<and> (sg = 0x2D \<or> sg = 0x2B)
           \<and> ds \<noteq> [] \<and> list_all is_digit ds \<and> is_word c))"
  (is "_ = (\<not> ?P)")
proof -
  have fwd: ?P if m: "now_regex_exec e \<noteq> None"
  proof -
    from now_regex_exec_shape [OF m] obtain sg r
      where e: "e = str ''now'' @ sg # r" and sg: "sg = 0x2D \<or> sg = 0x2B" by blast
    define ds where "ds = takeWhile is_digit r"
    define r1 where "r1 = dropWhile is_digit r"
    have r: "r = ds @ r1" by (simp add: ds_def r1_def)
    have digs: "list_all is_digit ds"
      unfolding ds_def by (rule list_all_takeWhile)
    have "now_regex_exec (str ''now'' @ sg # r) \<noteq> None" using m e by metis
    then have both: "ds \<noteq> [] \<and> ((\<exists>c rest. r1 = c # rest \<and> is_word c) \<or> 2 \<le> length ds)"
      by (rule iffD1 [OF now_regex_exec_core_iff [OF sg ds_def [symmetric] r1_def [symmetric]]])
    then have ne: "ds \<noteq> []" by (rule conjunct1)
    from both have alt: "(\<exists>c rest. r1 = c # rest \<and> is_word c) \<or> 2 \<le> length ds"
      by (rule conjunct2)
    show ?thesis
    proof (cases "\<exists>c rest. r1 = c # rest \<and> is_word c")
      case True
      then obtain c rest where c: "r1 = c # rest" "is_word c" by blast
      have "e = str ''now'' @ sg # ds @ c # rest" using e r c(1) by metis
      then show ?thesis
        using sg ne digs c(2)
        by (intro exI [of _ sg] exI [of _ ds] exI [of _ c] exI [of _ rest]) simp
    next
      case False
      then have len: "2 \<le> length ds" using alt by blast
      have sp: "butlast ds @ [last ds] = ds" using ne by simp
      have "ds @ r1 = (butlast ds @ [last ds]) @ r1" by (simp only: sp)
      also have "\<dots> = butlast ds @ last ds # r1" by simp
      finally have "r = butlast ds @ last ds # r1" using r by metis
      then have "e = str ''now'' @ sg # butlast ds @ last ds # r1" using e by metis
      moreover have "butlast ds \<noteq> []" using len by (cases ds rule: rev_cases) auto
      moreover have "list_all is_digit (butlast ds)"
        using digs in_set_butlastD unfolding list_all_iff by fast
      moreover have "is_word (last ds)"
        using digs ne by (simp add: list_all_iff digit_is_word)
      ultimately show ?thesis
        using sg
        by (intro exI [of _ sg] exI [of _ "butlast ds"] exI [of _ "last ds"] exI [of _ r1]) simp
    qed
  qed
  have bwd: "now_regex_exec e \<noteq> None" if ex: ?P
  proof -
    from ex obtain sg ds c rest where e: "e = str ''now'' @ sg # ds @ c # rest"
      and sg: "sg = 0x2D \<or> sg = 0x2B" and ds: "ds \<noteq> []" "list_all is_digit ds"
      and c: "is_word c" by (elim exE conjE)
    have all: "\<And>x. x \<in> set ds \<Longrightarrow> is_digit x" using ds(2) by (simp add: list_all_iff)
    have tk: "takeWhile is_digit (ds @ c # rest) = ds @ takeWhile is_digit (c # rest)"
      using all by (rule takeWhile_append2)
    have dr: "dropWhile is_digit (ds @ c # rest) = dropWhile is_digit (c # rest)"
      using all by (rule dropWhile_append2)
    have "ds @ takeWhile is_digit (c # rest) \<noteq> [] \<and>
      ((\<exists>c' rest'. dropWhile is_digit (c # rest) = c' # rest' \<and> is_word c')
       \<or> 2 \<le> length (ds @ takeWhile is_digit (c # rest)))"
    proof (cases "is_digit c")
      case True
      have "2 \<le> length (ds @ takeWhile is_digit (c # rest))"
        using ds(1) True by (cases ds) simp_all
      then show ?thesis using ds(1) by simp
    next
      case False
      then show ?thesis using ds(1) c by simp
    qed
    then have "now_regex_exec (str ''now'' @ sg # ds @ c # rest) \<noteq> None"
      by (rule iffD2 [OF now_regex_exec_core_iff [OF sg tk dr]])
    then show ?thesis using e by metis
  qed
  show ?thesis
  proof
    assume n: "now_regex_exec e = None"
    show "\<not> ?P"
    proof
      assume ?P
      from bwd [OF this] n show False by simp
    qed
  next
    assume np: "\<not> ?P"
    show "now_regex_exec e = None"
    proof (rule ccontr)
      assume "now_regex_exec e \<noteq> None"
      from fwd [OF this] np show False by simp
    qed
  qed
qed

lemma rangeIndex_None:
  "k \<notin> set (map frame_key (rangeOptions @ hiddenRangeOptions)) \<Longrightarrow> rangeIndex k = None"
  unfolding rangeIndex_all by (simp add: index_frames_other)

lemmas frame_keys_eval = rangeOptions_def hiddenRangeOptions_def frame_key_preset str_eq_iff

text \<open>
  C2 (amended). For every entry of the combined visible and hidden preset tables
  whose \<open>to\<close> is \<open>now\<close>, \<open>describeTextRange\<close> applied to the entry's \<open>from\<close> token,
  which is its own normalized form, returns the entry itself and so its exact
  display string; the key looked up is the token followed by \<open>" to now"\<close>.
\<close>

theorem describeTextRange_preset_to_now:
  "f \<in> set (rangeOptions @ hiddenRangeOptions) \<and> opt_to f = str ''now'' \<longrightarrow>
     normalized (opt_from f) = opt_from f
     \<and> rangeIndex (opt_from f @ str '' to now'') = Some f
     \<and> describeTextRange (opt_from f) = f
     \<and> display (describeTextRange (opt_from f)) = display f"
proof
  assume a: "f \<in> set (rangeOptions @ hiddenRangeOptions) \<and> opt_to f = str ''now''"
  then have f: "f \<in> set (rangeOptions @ hiddenRangeOptions)" and t: "opt_to f = str ''now''"
    by simp_all
  have "opt_from f @ str '' to now'' = frame_key f"
    by (simp add: frame_key_def t str_append)
  then have "rangeIndex (opt_from f @ str '' to now'') = Some f"
    using rangeIndex_frame_key [OF f] by simp
  then show "normalized (opt_from f) = opt_from f
     \<and> rangeIndex (opt_from f @ str '' to now'') = Some f
     \<and> describeTextRange (opt_from f) = f
     \<and> display (describeTextRange (opt_from f)) = display f"
    using describeTextRange_frame [OF f t] by simp
qed

theorem describeTextRange_preset_to_now_witness:
  "preset (str ''now-5m'') (str ''now'')
     [0x41F, 0x43E, 0x441, 0x43B, 0x435, 0x434, 0x43D, 0x438, 0x442, 0x435, 0x20, 0x35, 0x20,
      0x43C, 0x438, 0x43D, 0x443, 0x442, 0x438] \<in> set (rangeOptions @ hiddenRangeOptions)
   \<and> describeTextRange (str ''now-5m'') =
       preset (str ''now-5m'') (str ''now'')
         [0x41F, 0x43E, 0x441, 0x43B, 0x435, 0x434, 0x43D, 0x438, 0x442, 0x435, 0x20, 0x35, 0x20,
          0x43C, 0x438, 0x43D, 0x443, 0x442, 0x438]
   \<and> display (describeTextRange (str ''now-5m'')) =
       Some [0x41F, 0x43E, 0x441, 0x43B, 0x435, 0x434, 0x43D, 0x438, 0x442, 0x435, 0x20, 0x35, 0x20,
             0x43C, 0x438, 0x43D, 0x443, 0x442, 0x438]"
proof -
  let ?f = "preset (str ''now-5m'') (str ''now'')
     [0x41F, 0x43E, 0x441, 0x43B, 0x435, 0x434, 0x43D, 0x438, 0x442, 0x435, 0x20, 0x35, 0x20,
      0x43C, 0x438, 0x43D, 0x443, 0x442, 0x438]"
  have m: "?f \<in> set (rangeOptions @ hiddenRangeOptions)"
    by (simp add: rangeOptions_def)
  show ?thesis
    using m describeTextRange_preset_to_now [of ?f] by (simp add: preset_sel)
qed

text \<open>
  C2 as stated fails for the forward presets: the index holds the hidden entry of
  the next five minutes under the key \<open>"now to now+5m"\<close>, but \<open>describeTextRange\<close>
  looks up \<open>"now+5m to now"\<close> only, finds nothing, and builds the display from the
  pattern instead of returning the entry's display string.
\<close>

theorem describeTextRange_forward_counterexample:
  "rangeIndex (str ''now to now+5m'') =
     Some (preset (str ''now'') (str ''now+5m'')
       [0x421, 0x43B, 0x435, 0x434, 0x432, 0x430, 0x449, 0x438, 0x442, 0x435, 0x20, 0x35, 0x20,
        0x43C, 0x438, 0x43D, 0x443, 0x442, 0x438])
   \<and> normalized (str ''+5m'') = str ''now+5m''
   \<and> describeTextRange (str ''+5m'') =
       \<lparr>opt_from = str ''now'', opt_to = str ''now+5m'',
        display = Some (str ''Next 5 '' @ [0x43C, 0x438, 0x43D, 0x443, 0x442, 0x430] @ str ''s''),
        opt_section = None, invalid = None\<rparr>
   \<and> display (describeTextRange (str ''+5m'')) \<noteq>
       Some [0x421, 0x43B, 0x435, 0x434, 0x432, 0x430, 0x449, 0x438, 0x442, 0x435, 0x20, 0x35, 0x20,
             0x43C, 0x438, 0x43D, 0x443, 0x442, 0x438]
   \<and> display (describeTextRange (str ''now+5m'')) \<noteq>
       Some [0x421, 0x43B, 0x435, 0x434, 0x432, 0x430, 0x449, 0x438, 0x442, 0x435, 0x20, 0x35, 0x20,
             0x43C, 0x438, 0x43D, 0x443, 0x442, 0x438]"
proof -
  let ?f = "preset (str ''now'') (str ''now+5m'')
       [0x421, 0x43B, 0x435, 0x434, 0x432, 0x430, 0x449, 0x438, 0x442, 0x435, 0x20, 0x35, 0x20,
        0x43C, 0x438, 0x43D, 0x443, 0x442, 0x438]"
  have "?f \<in> set (rangeOptions @ hiddenRangeOptions)"
    by (simp add: hiddenRangeOptions_def)
  from rangeIndex_frame_key [OF this]
  have a: "rangeIndex (str ''now to now+5m'') = Some ?f"
    by (simp add: frame_key_preset)
  have n: "rangeIndex (str ''now+5m to now'') = None"
    by (rule rangeIndex_None) (simp add: frame_keys_eval)
  have i: "indexOf (str ''+5m'') (str ''+'') = 0" "indexOf (str ''+5m'') (str ''now'') = - 1"
    "indexOf (str ''now+5m'') (str ''+'') = 3" "indexOf (str ''now+5m'') (str ''now'') = 0"
    by (simp_all add: indexOf_def str_def)
  have r: "now_regex_exec (str ''now+5m'') = Some (str ''+'', str ''5'', str ''m'')"
    by (simp add: now_regex_exec_def str_def is_digit_def is_word_def)
  have p: "parseInt10 (str ''5'') = Num 5"
    "map_of spans (str ''m'') =
       Some \<lparr>span_display = [0x43C, 0x438, 0x43D, 0x443, 0x442, 0x430], span_section = None\<rparr>"
    by (simp_all add: parseInt10_def is_white_def is_digit_def base_value_def digit_value_def
        spans_def str_def)
  have b: "normalized (str ''+5m'') = str ''now+5m''"
    by (simp add: normalized_def i str_append)
  have c: "describeTextRange (str ''+5m'') =
       \<lparr>opt_from = str ''now'', opt_to = str ''now+5m'',
        display = Some (str ''Next 5 '' @ [0x43C, 0x438, 0x43D, 0x443, 0x442, 0x430] @ str ''s''),
        opt_section = None, invalid = None\<rparr>"
    by (simp add: describeTextRange_def Let_def i n r p js_gt_def str_append)
       (simp add: int_to_string_def nat_to_string.simps str_def)
  have d: "describeTextRange (str ''now+5m'') =
       \<lparr>opt_from = str ''now+5m'', opt_to = str ''now'',
        display = Some (str ''Last 5 '' @ [0x43C, 0x438, 0x43D, 0x443, 0x442, 0x430] @ str ''s''),
        opt_section = None, invalid = None\<rparr>"
    by (simp add: describeTextRange_def Let_def i n r p js_gt_def str_append)
       (simp add: int_to_string_def nat_to_string.simps str_def)
  show ?thesis
    unfolding c d using a b by (simp add: str_def)
qed

lemma unit_letter_is_word: "u \<in> set (str ''smhdwMy'') \<Longrightarrow> is_word u"
  by (auto simp: str_def is_word_def)

text \<open>
  C4 (amended). \<open>isValidTimeSpan\<close> is true for every value beginning with \<open>$\<close> or
  \<open>+$\<close>; for every other value it is true if and only if \<open>describeTextRange\<close> does not
  mark the value invalid. \<open>describeTextRange\<close> does not set \<open>invalid\<close> when the
  normalized token followed by \<open>" to now"\<close> is a key of the preset index, nor when the
  token begins with \<open>now\<close>, a sign, an integer and a unit among s, m, h, d, w, M, y.
  It sets \<open>invalid = true\<close>, with the display \<open>"<from> to <to>"\<close>, whenever the token
  is no such key and does not begin with \<open>now\<close>, a sign, one or more digits and a
  word character.
\<close>

theorem isValidTimeSpan_invalid:
  "(take 1 v = str ''$'' \<or> take 2 v = str ''+$'' \<longrightarrow> isValidTimeSpan v)
   \<and> (\<not> (take 1 v = str ''$'' \<or> take 2 v = str ''+$'') \<longrightarrow>
        isValidTimeSpan v = (invalid (describeTextRange v) \<noteq> Some True))
   \<and> (rangeIndex (normalized v @ str '' to now'') \<noteq> None \<longrightarrow>
        invalid (describeTextRange v) \<noteq> Some True)
   \<and> (normalized v = str ''now'' @ sg # ds @ u # rest \<and> (sg = 0x2D \<or> sg = 0x2B)
        \<and> ds \<noteq> [] \<and> list_all is_digit ds \<and> u \<in> set (str ''smhdwMy'') \<longrightarrow>
        invalid (describeTextRange v) \<noteq> Some True)
   \<and> (rangeIndex (normalized v @ str '' to now'') = None
        \<and> \<not> (\<exists>sg' ds' c rest'. normalized v = str ''now'' @ sg' # ds' @ c # rest'
               \<and> (sg' = 0x2D \<or> sg' = 0x2B) \<and> ds' \<noteq> [] \<and> list_all is_digit ds' \<and> is_word c) \<longrightarrow>
        invalid (describeTextRange v) = Some True
        \<and> display (describeTextRange v) =
            Some (opt_from (describeTextRange v) @ str '' to '' @ opt_to (describeTextRange v)))"
proof -
  have len: "length (str ''$'') = 1" "length (str ''+$'') = 2"
    by (simp_all add: str_def)
  have sigil: "(indexOf v (str ''$'') = 0 \<or> indexOf v (str ''+$'') = 0) =
    (take 1 v = str ''$'' \<or> take 2 v = str ''+$'')"
    by (simp only: indexOf_zero_iff len)
  have a: "take 1 v = str ''$'' \<or> take 2 v = str ''+$'' \<longrightarrow> isValidTimeSpan v"
    unfolding isValidTimeSpan_def sigil by simp
  have b: "\<not> (take 1 v = str ''$'' \<or> take 2 v = str ''+$'') \<longrightarrow>
        isValidTimeSpan v = (invalid (describeTextRange v) \<noteq> Some True)"
    unfolding isValidTimeSpan_def sigil by simp
  have c: "rangeIndex (normalized v @ str '' to now'') \<noteq> None \<longrightarrow>
        invalid (describeTextRange v) \<noteq> Some True"
    by (simp add: describeTextRange_invalid_iff)
  have d: "normalized v = str ''now'' @ sg # ds @ u # rest \<and> (sg = 0x2D \<or> sg = 0x2B)
        \<and> ds \<noteq> [] \<and> list_all is_digit ds \<and> u \<in> set (str ''smhdwMy'') \<longrightarrow>
        invalid (describeTextRange v) \<noteq> Some True"
  proof
    assume h: "normalized v = str ''now'' @ sg # ds @ u # rest \<and> (sg = 0x2D \<or> sg = 0x2B)
        \<and> ds \<noteq> [] \<and> list_all is_digit ds \<and> u \<in> set (str ''smhdwMy'')"
    then have "is_word u" using unit_letter_is_word by blast
    with h have "\<exists>sg' ds' c rest'. normalized v = str ''now'' @ sg' # ds' @ c # rest'
               \<and> (sg' = 0x2D \<or> sg' = 0x2B) \<and> ds' \<noteq> [] \<and> list_all is_digit ds' \<and> is_word c"
      by (intro exI [of _ sg] exI [of _ ds] exI [of _ u] exI [of _ rest]) simp
    then have "now_regex_exec (normalized v) \<noteq> None"
      by (simp only: now_regex_exec_iff) simp
    then show "invalid (describeTextRange v) \<noteq> Some True"
      by (simp add: describeTextRange_invalid_iff)
  qed
  have e: "rangeIndex (normalized v @ str '' to now'') = None
        \<and> \<not> (\<exists>sg' ds' c rest'. normalized v = str ''now'' @ sg' # ds' @ c # rest'
               \<and> (sg' = 0x2D \<or> sg' = 0x2B) \<and> ds' \<noteq> [] \<and> list_all is_digit ds' \<and> is_word c) \<longrightarrow>
        invalid (describeTextRange v) = Some True
        \<and> display (describeTextRange v) =
            Some (opt_from (describeTextRange v) @ str '' to '' @ opt_to (describeTextRange v))"
  proof
    assume h: "rangeIndex (normalized v @ str '' to now'') = None
        \<and> \<not> (\<exists>sg' ds' c rest'. normalized v = str ''now'' @ sg' # ds' @ c # rest'
               \<and> (sg' = 0x2D \<or> sg' = 0x2B) \<and> ds' \<noteq> [] \<and> list_all is_digit ds' \<and> is_word c)"
    then have "now_regex_exec (normalized v) = None"
      by (simp only: now_regex_exec_iff) simp
    with h have i: "invalid (describeTextRange v) = Some True"
      by (simp add: describeTextRange_invalid_iff)
    from describeTextRange_invalid_display [OF i] i
    show "invalid (describeTextRange v) = Some True
        \<and> display (describeTextRange v) =
            Some (opt_from (describeTextRange v) @ str '' to '' @ opt_to (describeTextRange v))"
      by (intro conjI)
  qed
  show ?thesis
    by (intro conjI) (rule a b c d e)+
qed

theorem isValidTimeSpan_invalid_witness:
  "take 1 (str ''$myVar'') = str ''$'' \<and> isValidTimeSpan (str ''$myVar'')
   \<and> \<not> (take 1 (str ''not-a-valid-expr!!'') = str ''$''
          \<or> take 2 (str ''not-a-valid-expr!!'') = str ''+$'')
   \<and> rangeIndex (normalized (str ''not-a-valid-expr!!'') @ str '' to now'') = None
   \<and> now_regex_exec (normalized (str ''not-a-valid-expr!!'')) = None
   \<and> invalid (describeTextRange (str ''not-a-valid-expr!!'')) = Some True
   \<and> \<not> isValidTimeSpan (str ''not-a-valid-expr!!'')
   \<and> display (describeTextRange (str ''not-a-valid-expr!!'')) =
       Some (str ''now-not-a-valid-expr!! to now'')
   \<and> normalized (str ''90m'') = str ''now'' @ 0x2D # str ''90'' @ 0x6D # []
   \<and> isValidTimeSpan (str ''90m'')
   \<and> rangeIndex (normalized (str ''now-5m'') @ str '' to now'') \<noteq> None
   \<and> isValidTimeSpan (str ''now-5m'')"
proof -
  let ?v = "str ''not-a-valid-expr!!''"
  have s: "take 1 (str ''$myVar'') = str ''$''"
    "\<not> (take 1 ?v = str ''$'' \<or> take 2 ?v = str ''+$'')"
    "\<not> (take 1 (str ''90m'') = str ''$'' \<or> take 2 (str ''90m'') = str ''+$'')"
    "\<not> (take 1 (str ''now-5m'') = str ''$'' \<or> take 2 (str ''now-5m'') = str ''+$'')"
    by (simp_all add: take_str str_eq_iff)
  have i: "indexOf ?v (str ''+'') = - 1" "indexOf ?v (str ''now'') = - 1"
    "indexOf (str ''90m'') (str ''+'') = - 1" "indexOf (str ''90m'') (str ''now'') = - 1"
    "indexOf (str ''now-5m'') (str ''now'') = 0"
    by (simp_all add: indexOf_def str_def)
  have nv: "normalized ?v = str ''now-not-a-valid-expr!!''"
    by (simp add: normalized_def i str_append)
  have n: "rangeIndex (normalized ?v @ str '' to now'') = None"
    unfolding nv str_append by (rule rangeIndex_None) (simp add: frame_keys_eval)
  have r: "now_regex_exec (normalized ?v) = None"
    unfolding nv by (simp add: now_regex_exec_def str_def is_digit_def)
  have nr: "\<not> (\<exists>sg' ds' c rest'. normalized ?v = str ''now'' @ sg' # ds' @ c # rest'
               \<and> (sg' = 0x2D \<or> sg' = 0x2B) \<and> ds' \<noteq> [] \<and> list_all is_digit ds' \<and> is_word c)"
    by (rule iffD1 [OF now_regex_exec_iff r])
  have ft: "opt_from (describeTextRange ?v) = str ''now-not-a-valid-expr!!''"
    "opt_to (describeTextRange ?v) = str ''now''"
    using n r unfolding nv
    by (simp_all add: describeTextRange_def Let_def i str_append)
  note t = isValidTimeSpan_invalid [of ?v]
  from t n nr have inv: "invalid (describeTextRange ?v) = Some True" by blast
  from t n nr have "display (describeTextRange ?v) =
      Some (opt_from (describeTextRange ?v) @ str '' to '' @ opt_to (describeTextRange ?v))"
    by blast
  then have d: "display (describeTextRange ?v) = Some (str ''now-not-a-valid-expr!! to now'')"
    by (simp add: ft str_append)
  from t s(2) inv have nvld: "\<not> isValidTimeSpan ?v" by blast
  have vld: "isValidTimeSpan (str ''$myVar'')"
    using isValidTimeSpan_invalid [of "str ''$myVar''"] s(1) by blast
  have n90: "normalized (str ''90m'') = str ''now'' @ 0x2D # str ''90'' @ 0x6D # []"
    by (simp add: normalized_def i) (simp add: str_def)
  have h90: "str ''90'' \<noteq> []" "list_all is_digit (str ''90'')" "0x6D \<in> set (str ''smhdwMy'')"
    by (simp_all add: str_def is_digit_def)
  have "invalid (describeTextRange (str ''90m'')) \<noteq> Some True"
    using isValidTimeSpan_invalid [of "str ''90m''" "0x2D" "str ''90''" "0x6D" "[]"] n90 h90
    by blast
  then have v90: "isValidTimeSpan (str ''90m'')"
    using isValidTimeSpan_invalid [of "str ''90m''"] s(3) by blast
  have n5: "normalized (str ''now-5m'') = str ''now-5m''"
    by (simp add: normalized_def i)
  have "preset (str ''now-5m'') (str ''now'')
     [0x41F, 0x43E, 0x441, 0x43B, 0x435, 0x434, 0x43D, 0x438, 0x442, 0x435, 0x20, 0x35, 0x20,
      0x43C, 0x438, 0x43D, 0x443, 0x442, 0x438] \<in> set (rangeOptions @ hiddenRangeOptions)"
    by (simp add: rangeOptions_def)
  from rangeIndex_frame_key [OF this]
  have k5: "rangeIndex (normalized (str ''now-5m'') @ str '' to now'') \<noteq> None"
    unfolding n5 by (simp add: frame_key_preset str_append)
  then have "invalid (describeTextRange (str ''now-5m'')) \<noteq> Some True"
    using isValidTimeSpan_invalid [of "str ''now-5m''"] by blast
  then have v5: "isValidTimeSpan (str ''now-5m'')"
    using isValidTimeSpan_invalid [of "str ''now-5m''"] s(4) by blast
  show ?thesis
    using s(1,2) vld n r inv nvld d n90 v90 k5 v5 by blast
qed

text \<open>
  C4 as stated fails: the normalized token \<open>"now-5x"\<close> is no key of the index and
  its unit \<open>x\<close> is not one of s, m, h, d, w, M, y, yet \<open>describeTextRange\<close> does not
  mark it invalid, and \<open>isValidTimeSpan("5x")\<close> is true. Nor is a token invalid that
  goes on after the unit, such as \<open>"now-1d/d"\<close>, which is no key with \<open>" to now"\<close>.
\<close>

theorem isValidTimeSpan_unit_counterexample:
  "normalized (str ''5x'') = str ''now-5x''
   \<and> rangeIndex (str ''now-5x to now'') = None
   \<and> map_of spans (str ''x'') = None
   \<and> describeTextRange (str ''5x'') =
       \<lparr>opt_from = str ''now-5x'', opt_to = str ''now'', display = None,
        opt_section = None, invalid = None\<rparr>
   \<and> invalid (describeTextRange (str ''5x'')) \<noteq> Some True
   \<and> isValidTimeSpan (str ''5x'')
   \<and> rangeIndex (str ''now-1d/d to now'') = None
   \<and> invalid (describeTextRange (str ''now-1d/d'')) \<noteq> Some True
   \<and> isValidTimeSpan (str ''now-1d/d'')"
proof -
  have i: "indexOf (str ''5x'') (str ''+'') = - 1" "indexOf (str ''5x'') (str ''now'') = - 1"
    "indexOf (str ''5x'') (str ''$'') = - 1" "indexOf (str ''5x'') (str ''+$'') = - 1"
    "indexOf (str ''now-1d/d'') (str ''now'') = 0"
    "indexOf (str ''now-1d/d'') (str ''$'') = - 1" "indexOf (str ''now-1d/d'') (str ''+$'') = - 1"
    by (simp_all add: indexOf_def str_def)
  have nv: "normalized (str ''5x'') = str ''now-5x''"
    "normalized (str ''now-1d/d'') = str ''now-1d/d''"
    by (simp_all add: normalized_def i str_append)
  have n: "rangeIndex (str ''now-5x to now'') = None"
    "rangeIndex (str ''now-1d/d to now'') = None"
    by (rule rangeIndex_None, simp add: frame_keys_eval)+
  have r: "now_regex_exec (str ''now-5x'') = Some (str ''-'', str ''5'', str ''x'')"
    "now_regex_exec (str ''now-1d/d'') \<noteq> None"
    by (simp_all add: now_regex_exec_def str_def is_digit_def is_word_def)
  have sp: "map_of spans (str ''x'') = None"
    by (simp add: spans_def str_def)
  have d: "describeTextRange (str ''5x'') =
       \<lparr>opt_from = str ''now-5x'', opt_to = str ''now'', display = None,
        opt_section = None, invalid = None\<rparr>"
    by (simp add: describeTextRange_def Let_def i n r sp str_append)
  have v: "isValidTimeSpan (str ''5x'')"
    by (simp add: isValidTimeSpan_def i d)
  have e: "invalid (describeTextRange (str ''now-1d/d'')) \<noteq> Some True"
    using r(2) by (simp add: describeTextRange_invalid_iff nv)
  then have w: "isValidTimeSpan (str ''now-1d/d'')"
    by (simp add: isValidTimeSpan_def i)
  show ?thesis using nv n sp d v e w by simp
qed

subsection \<open>Properties of the converters\<close>

lemma unix_shift: "(t - (t div 1000 - f div 1000) * 1000) div 1000 = f div (1000 :: int)"
proof -
  have "t - (t div 1000 - f div 1000) * 1000 = t mod 1000 + (f div 1000) * 1000"
    using mult_div_mod_eq [of 1000 t] by (simp add: algebra_simps)
  then show ?thesis by simp
qed

lemma same_millisecond:
  "f mod 1000 = t mod (1000 :: int) \<Longrightarrow> t - (t div 1000 - f div 1000) * 1000 = f"
proof -
  assume m: "f mod 1000 = t mod 1000"
  have "t - (t div 1000 - f div 1000) * 1000 = t mod 1000 + (f div 1000) * 1000"
    using mult_div_mod_eq [of 1000 t] by (simp add: algebra_simps)
  also have "\<dots> = f" using mult_div_mod_eq [of 1000 f] m by (simp add: algebra_simps)
  finally show ?thesis .
qed

text \<open>
  C3 (amended). For every resolved range R and every reference instant T,
  \<open>relativeToTimeRange(timeRangeToRelative(R, T), T)\<close> reproduces R's \<open>from\<close> and \<open>to\<close>
  to the whole second (the same \<open>unix()\<close> values), and exactly whenever the instant
  of R has the same millisecond within its second as T, as when all instants are
  whole seconds. Whenever the relative range's \<open>to\<close> equals 0, \<open>relativeToTimeRange\<close>
  maps it to exactly T.
\<close>

theorem relative_round_trip:
  "unix (range_from (relativeToTimeRange (timeRangeToRelative R T) T)) = unix (range_from R)
   \<and> unix (range_to (relativeToTimeRange (timeRangeToRelative R T) T)) = unix (range_to R)
   \<and> (range_from R mod 1000 = T mod 1000 \<longrightarrow>
        range_from (relativeToTimeRange (timeRangeToRelative R T) T) = range_from R)
   \<and> (range_to R mod 1000 = T mod 1000 \<longrightarrow>
        range_to (relativeToTimeRange (timeRangeToRelative R T) T) = range_to R)
   \<and> (rel_to r = 0 \<longrightarrow> range_to (relativeToTimeRange r T) = T)"
proof -
  have f: "range_from (relativeToTimeRange (timeRangeToRelative R T) T)
      = T - (T div 1000 - range_from R div 1000) * 1000"
    by (simp add: relativeToTimeRange_def timeRangeToRelative_def Let_def unix_def
        subtract_s_def dateTime_def)
  have t: "range_to (relativeToTimeRange (timeRangeToRelative R T) T)
      = (if T div 1000 - range_to R div 1000 = 0 then T
         else T - (T div 1000 - range_to R div 1000) * 1000)"
    by (simp add: relativeToTimeRange_def timeRangeToRelative_def Let_def unix_def
        subtract_s_def dateTime_def)
  have t': "range_to (relativeToTimeRange (timeRangeToRelative R T) T)
      = T - (T div 1000 - range_to R div 1000) * 1000"
    unfolding t by simp
  have a: "unix (range_from (relativeToTimeRange (timeRangeToRelative R T) T)) = unix (range_from R)"
    unfolding f unix_def by (rule unix_shift)
  have b: "unix (range_to (relativeToTimeRange (timeRangeToRelative R T) T)) = unix (range_to R)"
    unfolding t' unix_def by (rule unix_shift)
  have c: "range_from R mod 1000 = T mod 1000 \<longrightarrow>
        range_from (relativeToTimeRange (timeRangeToRelative R T) T) = range_from R"
    unfolding f using same_millisecond by blast
  have d: "range_to R mod 1000 = T mod 1000 \<longrightarrow>
        range_to (relativeToTimeRange (timeRangeToRelative R T) T) = range_to R"
    unfolding t' using same_millisecond by blast
  have e: "rel_to r = 0 \<longrightarrow> range_to (relativeToTimeRange r T) = T"
    by (simp add: relativeToTimeRange_def Let_def dateTime_def)
  show ?thesis using a b c d e by blast
qed

theorem relative_round_trip_witness:
  "(10000 :: int) mod 1000 = 100000 mod 1000 \<and> (70000 :: int) mod 1000 = 100000 mod 1000
   \<and> range_from (relativeToTimeRange (timeRangeToRelative
        \<lparr>range_from = 10000, range_to = 70000,
         range_raw = \<lparr>raw_from = Instant 10000, raw_to = Instant 70000\<rparr>\<rparr> 100000) 100000) = 10000
   \<and> range_to (relativeToTimeRange (timeRangeToRelative
        \<lparr>range_from = 10000, range_to = 70000,
         range_raw = \<lparr>raw_from = Instant 10000, raw_to = Instant 70000\<rparr>\<rparr> 100000) 100000) = 70000
   \<and> range_to (relativeToTimeRange \<lparr>rel_from = 300, rel_to = 0\<rparr> 1234567) = 1234567"
  using relative_round_trip
    [of "\<lparr>range_from = 10000, range_to = 70000,
          range_raw = \<lparr>raw_from = Instant 10000, raw_to = Instant 70000\<rparr>\<rparr>" 100000
        "\<lparr>rel_from = 300, rel_to = 0\<rparr>"]
    relative_round_trip
    [of "\<lparr>range_from = 10000, range_to = 70000,
          range_raw = \<lparr>raw_from = Instant 10000, raw_to = Instant 70000\<rparr>\<rparr>" 1234567
        "\<lparr>rel_from = 300, rel_to = 0\<rparr>"]
  by simp

text \<open>
  C3 as stated fails: with the range from 0 ms to 1200 ms and the reference instant
  1500 ms the relative range is 1 second and 0 seconds, and the way back gives 500 ms
  and 1500 ms.
\<close>

theorem relative_round_trip_counterexample:
  "timeRangeToRelative
     \<lparr>range_from = 0, range_to = 1200,
      range_raw = \<lparr>raw_from = Instant 0, raw_to = Instant 1200\<rparr>\<rparr> 1500
     = \<lparr>rel_from = 1, rel_to = 0\<rparr>
   \<and> range_from (relativeToTimeRange (timeRangeToRelative
        \<lparr>range_from = 0, range_to = 1200,
         range_raw = \<lparr>raw_from = Instant 0, raw_to = Instant 1200\<rparr>\<rparr> 1500) 1500) = 500
   \<and> range_to (relativeToTimeRange (timeRangeToRelative
        \<lparr>range_from = 0, range_to = 1200,
         range_raw = \<lparr>raw_from = Instant 0, raw_to = Instant 1200\<rparr>\<rparr> 1500) 1500) = 1500"
  by (simp add: relativeToTimeRange_def timeRangeToRelative_def Let_def unix_def
      subtract_s_def dateTime_def)

text \<open>
  C8. \<open>convertRawToRange\<close> resolves \<open>raw.from\<close> with \<open>roundUp = false\<close> and \<open>raw.to\<close> with
  \<open>roundUp = true\<close>, passing the time zone and the start of the fiscal year on; the
  \<open>raw\<close> field of its result is the original pair whenever either side is a math
  string, and the pair of the two resolved instants when neither side is.
\<close>

theorem convertRawToRange_rounding_raw:
  "range_from (convertRawToRange dateTimeParse isMathString raw tz fy) =
     dateTimeParse (raw_from raw) \<lparr>roundUp = False, timeZone = tz, fiscalYearStartMonth = fy\<rparr>
   \<and> range_to (convertRawToRange dateTimeParse isMathString raw tz fy) =
     dateTimeParse (raw_to raw) \<lparr>roundUp = True, timeZone = tz, fiscalYearStartMonth = fy\<rparr>
   \<and> (isMathString (raw_from raw) \<or> isMathString (raw_to raw) \<longrightarrow>
        range_raw (convertRawToRange dateTimeParse isMathString raw tz fy) = raw)
   \<and> (\<not> isMathString (raw_from raw) \<and> \<not> isMathString (raw_to raw) \<longrightarrow>
        range_raw (convertRawToRange dateTimeParse isMathString raw tz fy) =
          \<lparr>raw_from = Instant (range_from (convertRawToRange dateTimeParse isMathString raw tz fy)),
           raw_to = Instant (range_to (convertRawToRange dateTimeParse isMathString raw tz fy))\<rparr>)"
  by (simp add: convertRawToRange_def Let_def)

text \<open>
  An instance, with a parser that resolves every string to the start or the end of
  the first day of the epoch and leaves an instant as it is, and with the strings
  that begin with \<open>now\<close> as the math strings.
\<close>

theorem convertRawToRange_rounding_raw_witness:
  "convertRawToRange
     (\<lambda>v opts. case v of Instant d \<Rightarrow> d | Text s \<Rightarrow> if roundUp opts then 86399999 else 0)
     (\<lambda>v. case v of Instant d \<Rightarrow> False | Text s \<Rightarrow> take 3 s = str ''now'')
     \<lparr>raw_from = Text (str ''now/d''), raw_to = Text (str ''now/d'')\<rparr> None None
     = \<lparr>range_from = 0, range_to = 86399999,
        range_raw = \<lparr>raw_from = Text (str ''now/d''), raw_to = Text (str ''now/d'')\<rparr>\<rparr>
   \<and> convertRawToRange
     (\<lambda>v opts. case v of Instant d \<Rightarrow> d | Text s \<Rightarrow> if roundUp opts then 86399999 else 0)
     (\<lambda>v. case v of Instant d \<Rightarrow> False | Text s \<Rightarrow> take 3 s = str ''now'')
     \<lparr>raw_from = Instant 5, raw_to = Text (str ''2023-01-01'')\<rparr> None None
     = \<lparr>range_from = 5, range_to = 86399999,
        range_raw = \<lparr>raw_from = Instant 5, raw_to = Instant 86399999\<rparr>\<rparr>"
proof -
  let ?parse = "\<lambda>v opts. case v of Instant d \<Rightarrow> d
                  | Text s \<Rightarrow> if roundUp opts then 86399999 else (0 :: int)"
  let ?math = "\<lambda>v. case v of Instant d \<Rightarrow> False | Text s \<Rightarrow> take 3 s = str ''now''"
  let ?a = "\<lparr>raw_from = Text (str ''now/d''), raw_to = Text (str ''now/d'')\<rparr>"
  let ?b = "\<lparr>raw_from = Instant 5, raw_to = Text (str ''2023-01-01'')\<rparr>"
  have m: "?math (raw_from ?a)" "\<not> ?math (raw_from ?b) \<and> \<not> ?math (raw_to ?b)"
    by (simp_all add: take_str str_eq_iff)
  have "range_from (convertRawToRange ?parse ?math ?a None None) = 0
    \<and> range_to (convertRawToRange ?parse ?math ?a None None) = 86399999
    \<and> range_raw (convertRawToRange ?parse ?math ?a None None) = ?a"
    using convertRawToRange_rounding_raw [of ?parse ?math ?a None None] m(1) by simp
  moreover have "range_from (convertRawToRange ?parse ?math ?b None None) = 5
    \<and> range_to (convertRawToRange ?parse ?math ?b None None) = 86399999
    \<and> range_raw (convertRawToRange ?parse ?math ?b None None)
        = \<lparr>raw_from = Instant 5, raw_to = Instant 86399999\<rparr>"
    using convertRawToRange_rounding_raw [of ?parse ?math ?b None None] m(2) by simp
  ultimately show ?thesis
    by (simp add: TimeRange.equality)
qed

end
